theory Spec2Isabelle
  imports Complex_Main "HOL-Library.AList" "HOL-Library.Sublist" "HOL-Library.Log_Nat"
begin

section \<open>Python values\<close>

text \<open>
  Strings are ASCII character lists. A decoded JSON document is a value of \<open>json\<close>; a
  Python \<open>dict\<close> is an association list in insertion order with distinct keys, read with
  \<open>map_of\<close> and written with \<open>AList.update\<close> (an existing key keeps its place, a new key
  goes to the end, as in Python). A Python \<open>float\<close> is the rational number it denotes.
\<close>

datatype json =
    JNull
  | JBool bool
  | JInt int
  | JFloat rat
  | JStr string
  | JArr "json list"
  | JObj "(string \<times> json) list"

type_synonym pydict = "(string \<times> json) list"

datatype error =
    ValueError string
  | NotImplementedError string
  | KeyError string
  | IndexError
  | TypeError
  | AttributeError
  | TransportError string
  | HTTPStatusError nat
  | JSONDecodeError
  | RetryError error
  | ZeroDivisionError
  | Exception string

subsection \<open>\<open>str.lower\<close>, \<open>repr\<close> of strings and lists of strings, \<open>str\<close> of integers\<close>

definition quoted :: "string \<Rightarrow> string" where
  "quoted s = [CHR 0x27] @ s @ [CHR 0x27]"

definition lower_char :: "char \<Rightarrow> char" where
  "lower_char c =
     (let n = (of_char c :: nat) in if 65 \<le> n \<and> n \<le> 90 then char_of (n + 32) else c)"

definition lower :: "string \<Rightarrow> string" where
  "lower s = map lower_char s"

definition hex_digit :: "nat \<Rightarrow> char" where
  "hex_digit n = ''0123456789abcdef'' ! (n mod 16)"

definition py_repr_char :: "char \<Rightarrow> char \<Rightarrow> string" where
  "py_repr_char q c =
     (let n = (of_char c :: nat) in
      if c = q \<or> c = CHR 0x5C then [CHR 0x5C, c]
      else if c = CHR 0x09 then [CHR 0x5C, CHR ''t'']
      else if c = CHR 0x0A then [CHR 0x5C, CHR ''n'']
      else if c = CHR 0x0D then [CHR 0x5C, CHR ''r'']
      else if n < 32 \<or> n = 127 then [CHR 0x5C, CHR ''x'', hex_digit (n div 16), hex_digit n]
      else [c])"

definition py_repr_quote :: "string \<Rightarrow> char" where
  "py_repr_quote s = (if CHR 0x27 \<in> set s \<and> CHR 0x22 \<notin> set s then CHR 0x22 else CHR 0x27)"

definition py_repr_str :: "string \<Rightarrow> string" where
  "py_repr_str s = [py_repr_quote s] @ concat (map (py_repr_char (py_repr_quote s)) s) @ [py_repr_quote s]"

fun join :: "string \<Rightarrow> string list \<Rightarrow> string" where
  "join sep [] = []"
| "join sep [x] = x"
| "join sep (x # y # ys) = x @ sep @ join sep (y # ys)"

definition py_repr_list :: "string list \<Rightarrow> string" where
  "py_repr_list xs = ''['' @ join '', '' (map py_repr_str xs) @ '']''"

function str_nat :: "nat \<Rightarrow> string" where
  "str_nat n = (if n < 10 then [hex_digit n] else str_nat (n div 10) @ [hex_digit (n mod 10)])"
  by pat_completeness auto
termination
  by (relation "measure id") auto

declare str_nat.simps [simp del]

definition str_int :: "int \<Rightarrow> string" where
  "str_int i = (if i < 0 then ''-'' @ str_nat (nat (- i)) else str_nat (nat i))"

subsection \<open>Access to decoded JSON\<close>

text \<open>
  \<open>py_get x k d\<close> is \<open>x.get(k, d)\<close>, \<open>py_getitem x k\<close> is \<open>x[k]\<close> for a string \<open>k\<close>,
  \<open>py_index x i\<close> is \<open>x[i]\<close> for a non-negative integer \<open>i\<close>, and \<open>py_iter x\<close> is the list of
  values a \<open>for\<close> loop over \<open>x\<close> visits. Each raises what Python raises on a value of the
  wrong type.
\<close>

definition py_get :: "json \<Rightarrow> string \<Rightarrow> json \<Rightarrow> error + json" where
  "py_get x k d =
     (case x of
        JObj kv \<Rightarrow> Inr (case map_of kv k of Some v \<Rightarrow> v | None \<Rightarrow> d)
      | _ \<Rightarrow> Inl AttributeError)"

definition py_getitem :: "json \<Rightarrow> string \<Rightarrow> error + json" where
  "py_getitem x k =
     (case x of
        JObj kv \<Rightarrow> (case map_of kv k of Some v \<Rightarrow> Inr v | None \<Rightarrow> Inl (KeyError k))
      | _ \<Rightarrow> Inl TypeError)"

definition py_index :: "json \<Rightarrow> nat \<Rightarrow> error + json" where
  "py_index x i =
     (case x of
        JArr xs \<Rightarrow> (if i < length xs then Inr (xs ! i) else Inl IndexError)
      | JStr s \<Rightarrow> (if i < length s then Inr (JStr [s ! i]) else Inl IndexError)
      | JObj kv \<Rightarrow> Inl (KeyError (str_nat i))
      | _ \<Rightarrow> Inl TypeError)"

definition py_iter :: "json \<Rightarrow> error + json list" where
  "py_iter x =
     (case x of
        JArr xs \<Rightarrow> Inr xs
      | JObj kv \<Rightarrow> Inr (map (\<lambda>(k, v). JStr k) kv)
      | JStr s \<Rightarrow> Inr (map (\<lambda>c. JStr [c]) s)
      | _ \<Rightarrow> Inl TypeError)"

text \<open>\<open>field x k\<close> is \<open>x.get(k)\<close> for an \<open>x\<close> known to be a dict.\<close>

definition field :: "json \<Rightarrow> string \<Rightarrow> json" where
  "field x k = (case py_get x k JNull of Inr v \<Rightarrow> v | Inl e \<Rightarrow> JNull)"

text \<open>A loop that appends one computed element per item stops at the first exception.\<close>

fun mapM :: "('a \<Rightarrow> error + 'b) \<Rightarrow> 'a list \<Rightarrow> error + 'b list" where
  "mapM f [] = Inr []"
| "mapM f (x # xs) =
     (case f x of
        Inl e \<Rightarrow> Inl e
      | Inr y \<Rightarrow> (case mapM f xs of Inl e \<Rightarrow> Inl e | Inr ys \<Rightarrow> Inr (y # ys)))"

subsection \<open>Truth values, formatting and conversions of Python\<close>

text \<open>
  \<open>if x:\<close> for a string; \<open>x != k\<close> for a decoded JSON value
  and an integer (\<open>False\<close> and \<open>0.0\<close> are equal to \<open>0\<close>); \<open>len(x)\<close>. The built-in
  conversions of a string, \<open>int(s)\<close> and \<open>float(s)\<close>, and \<open>str\<close> of a float, list or dict
  are not code of the repository: they are the arguments \<open>int_of_str\<close>, \<open>float_of_str\<close> and
  \<open>str_other\<close> of the functions that need them.
\<close>

definition truthy_str :: "string \<Rightarrow> bool" where
  "truthy_str x = (x \<noteq> [])"

definition py_ne_int :: "json \<Rightarrow> int \<Rightarrow> bool" where
  "py_ne_int x k =
     (case x of
        JInt n \<Rightarrow> n \<noteq> k
      | JFloat r \<Rightarrow> r \<noteq> of_int k
      | JBool b \<Rightarrow> (if b then 1 else 0) \<noteq> k
      | _ \<Rightarrow> True)"

definition py_len :: "json \<Rightarrow> error + nat" where
  "py_len x =
     (case x of
        JArr xs \<Rightarrow> Inr (length xs)
      | JStr s \<Rightarrow> Inr (length s)
      | JObj kv \<Rightarrow> Inr (length kv)
      | _ \<Rightarrow> Inl TypeError)"

definition py_format :: "(json \<Rightarrow> string) \<Rightarrow> json \<Rightarrow> string" where
  "py_format str_other v =
     (case v of
        JStr s \<Rightarrow> s
      | JNull \<Rightarrow> ''None''
      | JBool b \<Rightarrow> (if b then ''True'' else ''False'')
      | JInt n \<Rightarrow> str_int n
      | _ \<Rightarrow> str_other v)"

definition py_int :: "(string \<Rightarrow> int option) \<Rightarrow> json \<Rightarrow> error + int" where
  "py_int int_of_str v =
     (case v of
        JInt n \<Rightarrow> Inr n
      | JBool b \<Rightarrow> Inr (if b then 1 else 0)
      | JFloat r \<Rightarrow> Inr (if r \<ge> 0 then \<lfloor>r\<rfloor> else \<lceil>r\<rceil>)
      | JStr s \<Rightarrow>
          (case int_of_str s of
             Some n \<Rightarrow> Inr n
           | None \<Rightarrow> Inl (ValueError (''invalid literal for int() with base 10: '' @ py_repr_str s)))
      | _ \<Rightarrow> Inl TypeError)"

subsection \<open>Double-precision arithmetic\<close>

text \<open>
  A finite double is the rational it denotes. \<open>fl x\<close> is the double nearest to \<open>x\<close>: the
  significand is rounded to 53 bits, ties to even. The exponent is not bounded, so
  overflow, subnormal numbers, infinities and NaN are outside the model. The arithmetic
  of Python's floats is the exact operation followed by \<open>fl\<close>; \<open>round(x, 2)\<close> of a float
  rounds the exact value of \<open>x\<close> to two decimals, ties to even, and returns the nearest
  double.
\<close>

definition pow2 :: "int \<Rightarrow> rat" where
  "pow2 e = (if e \<ge> 0 then 2 ^ nat e else 1 / 2 ^ nat (- e))"

definition round_half_even :: "rat \<Rightarrow> int" where
  "round_half_even x =
     (let f = \<lfloor>x\<rfloor>; d = x - of_int f in
      if d < 1 / 2 then f else if d > 1 / 2 then f + 1 else if even f then f else f + 1)"

definition floor_log2 :: "rat \<Rightarrow> int" where
  "floor_log2 x =
     (if x \<ge> 1 then bitlen \<lfloor>x\<rfloor> - 1
      else (let j = bitlen \<lfloor>1 / x\<rfloor> - 1 in if x * pow2 j = 1 then - j else - j - 1))"

definition fl :: "rat \<Rightarrow> rat" where
  "fl x =
     (if x = 0 then 0
      else (let e = floor_log2 \<bar>x\<bar> - 52; m = round_half_even (\<bar>x\<bar> / pow2 e)
            in sgn x * of_int m * pow2 e))"

definition float_sub :: "rat \<Rightarrow> rat \<Rightarrow> rat" where
  "float_sub a b = fl (a - b)"

definition float_mul :: "rat \<Rightarrow> rat \<Rightarrow> rat" where
  "float_mul a b = fl (a * b)"

definition float_div :: "rat \<Rightarrow> rat \<Rightarrow> error + rat" where
  "float_div a b = (if b = 0 then Inl ZeroDivisionError else Inr (fl (a / b)))"

definition float_round2 :: "rat \<Rightarrow> rat" where
  "float_round2 x = fl (of_int (round_half_even (x * 100)) / 100)"

definition py_float :: "(string \<Rightarrow> rat option) \<Rightarrow> json \<Rightarrow> error + rat" where
  "py_float float_of_str v =
     (case v of
        JInt n \<Rightarrow> Inr (fl (of_int n))
      | JFloat r \<Rightarrow> Inr r
      | JBool b \<Rightarrow> Inr (if b then 1 else 0)
      | JStr s \<Rightarrow>
          (case float_of_str s of
             Some r \<Rightarrow> Inr r
           | None \<Rightarrow> Inl (ValueError (''could not convert string to float: '' @ py_repr_str s)))
      | _ \<Rightarrow> Inl TypeError)"

section \<open>Adapter instances and the exchange registry (\<open>core/exchange_factory.py\<close>)\<close>

datatype exchange_class = BinanceExchange | BybitExchange | HyperliquidExchange

text \<open>A database handler is an opaque object; only its identity is modelled.\<close>

datatype db_handler = DbHandler nat

record pair_set =
  active :: "pydict list"
  inactive :: "pydict list"

text \<open>
  The state of an adapter instance as \<open>BaseExchange.__init__\<close> sets it up: the class, the
  database handle, the cache time-to-live and the cache, a dict from market type to
  (capture timestamp, result). The lazily opened HTTP client is not part of the model.
\<close>

record adapter_instance =
  cls :: exchange_class
  db_handler :: "db_handler option"
  cache_ttl :: real
  cache :: "(string \<times> real \<times> pair_set) list"

definition new_instance :: "exchange_class \<Rightarrow> db_handler option \<Rightarrow> adapter_instance" where
  "new_instance c db = \<lparr>cls = c, db_handler = db, cache_ttl = 60, cache = []\<rparr>"

type_synonym registry = "(string \<times> exchange_class) list"

definition register :: "string \<Rightarrow> exchange_class \<Rightarrow> registry \<Rightarrow> registry" where
  "register name exchange_class reg = AList.update (lower name) exchange_class reg"

definition list_exchanges :: "registry \<Rightarrow> string list" where
  "list_exchanges reg = map fst reg"

definition create :: "string \<Rightarrow> db_handler option \<Rightarrow> registry \<Rightarrow> error + adapter_instance" where
  "create name db reg =
     (case map_of reg (lower name) of
        None \<Rightarrow> Inl (ValueError (''Exchange '' @ quoted name @ '' not found. ''
                  @ ''Available exchanges: '' @ py_repr_list (list_exchanges reg)))
      | Some exchange_class \<Rightarrow> Inr (new_instance exchange_class db))"

text \<open>The registrations executed when the module is loaded.\<close>

definition module_registry :: registry where
  "module_registry =
     register ''hyperliquid'' HyperliquidExchange
       (register ''bybit'' BybitExchange
         (register ''binance'' BinanceExchange []))"

section \<open>The retrying fetcher (\<open>core/base_exchange.py\<close>)\<close>

text \<open>
  The network is a script: the outcome of the \<open>k\<close>-th HTTP request the process sends
  (counted from 0). An outcome is what the three lines of the fetcher's body make of it:
  \<open>client.get\<close> raised (\<open>TransportFail\<close>), \<open>raise_for_status\<close> raised (\<open>StatusFail\<close>),
  \<open>response.json()\<close> raised (\<open>BadJson\<close>), or the decoded body. The world also records the
  requests sent and the waits slept, oldest first.
\<close>

datatype http_outcome = TransportFail string | StatusFail nat | BadJson | is_Json: Json json

datatype request = Get string | Post string json

record world =
  script :: "nat \<Rightarrow> http_outcome"
  sent :: "request list"
  slept :: "nat list"

definition http_request :: "request \<Rightarrow> world \<Rightarrow> (error + json) \<times> world" where
  "http_request rq w =
     (let w' = w\<lparr>sent := sent w @ [rq]\<rparr> in
      case script w (length (sent w)) of
        TransportFail m \<Rightarrow> (Inl (TransportError m), w')
      | StatusFail c \<Rightarrow> (Inl (HTTPStatusError c), w')
      | BadJson \<Rightarrow> (Inl JSONDecodeError, w')
      | Json j \<Rightarrow> (Inr j, w'))"

text \<open>
  The decorator \<open>@retry(stop=stop_after_attempt(3), wait=wait_exponential(multiplier=1,
  min=2, max=10))\<close> of the tenacity library. Attempts are numbered from 1. The decorator is
  given no \<open>retry=\<close> argument, so the library's default applies and every exception raised
  by the body leads to another attempt; it is given no \<open>reraise=\<close> argument, so when the
  stop condition holds the library raises its own \<open>RetryError\<close> around the last exception.
\<close>

definition wait_exponential :: "nat \<Rightarrow> nat \<Rightarrow> nat \<Rightarrow> nat \<Rightarrow> nat" where
  "wait_exponential multiplier mn mx attempt_number =
     max (max 0 mn) (min (multiplier * 2 ^ (attempt_number - 1)) mx)"

definition stop_after_attempt :: "nat \<Rightarrow> nat \<Rightarrow> bool" where
  "stop_after_attempt max_attempt_number attempt_number \<longleftrightarrow> attempt_number \<ge> max_attempt_number"

function retry :: "nat \<Rightarrow> (nat \<Rightarrow> nat) \<Rightarrow> (world \<Rightarrow> (error + 'a) \<times> world) \<Rightarrow> nat \<Rightarrow> world
    \<Rightarrow> (error + 'a) \<times> world" where
  "retry max_attempt_number wait body attempt_number w =
     (case body w of
        (Inr r, w') \<Rightarrow> (Inr r, w')
      | (Inl e, w') \<Rightarrow>
          if stop_after_attempt max_attempt_number attempt_number then (Inl (RetryError e), w')
          else retry max_attempt_number wait body (attempt_number + 1)
                 (w'\<lparr>slept := slept w' @ [wait attempt_number]\<rparr>))"
  by pat_completeness auto
termination
  by (relation "measure (\<lambda>(m, wt, b, n, w). m - n)") (auto simp: stop_after_attempt_def)

declare retry.simps [simp del]

definition fetch_with_retry :: "string \<Rightarrow> world \<Rightarrow> (error + json) \<times> world" where
  "fetch_with_retry url = retry 3 (wait_exponential 1 2 10) (http_request (Get url)) 1"

section \<open>The adapter base class (\<open>core/base_exchange.py\<close>)\<close>

text \<open>
  What a subclass supplies: the class method \<open>get_supported_markets\<close> and the methods
  \<open>process_<market>\<close>; \<open>process_method ad m\<close> is \<open>None\<close> when the instance has no attribute
  \<open>process_m\<close>. As in the three adapters of the repository, a processing method uses the
  network and leaves the instance alone.
\<close>

record adapter =
  get_supported_markets :: "string list"
  process_method :: "string \<Rightarrow> (world \<Rightarrow> (error + pydict list \<times> pydict list) \<times> world) option"

definition generate_symbol_updates_with_non_trading ::
    "string \<Rightarrow> pydict list \<Rightarrow> pydict list \<Rightarrow> pydict list \<times> pydict list" where
  "generate_symbol_updates_with_non_trading exchange trading_pairs non_trading_pairs =
     (map (\<lambda>pair. AList.update ''is_active'' (JBool True)
                    (AList.update ''exchange'' (JStr exchange) pair)) trading_pairs,
      map (\<lambda>pair. AList.update ''is_active'' (JBool False)
                    (AList.update ''exchange'' (JStr exchange) pair)) non_trading_pairs)"

text \<open>
  \<open>fetch_all_pairs\<close>. The two readings of \<open>time.time()\<close> are arguments: \<open>now_check\<close> is the one
  compared with the entry's timestamp, \<open>now_store\<close> the one stored with a new entry.
\<close>

definition fetch_all_pairs :: "adapter \<Rightarrow> string \<Rightarrow> bool \<Rightarrow> real \<Rightarrow> real \<Rightarrow> adapter_instance \<Rightarrow> world
    \<Rightarrow> (error + pair_set) \<times> adapter_instance \<times> world" where
  "fetch_all_pairs ad market_type use_cache now_check now_store self w =
     (if market_type \<notin> set (get_supported_markets ad) then
        (Inl (ValueError (''Unsupported market type '' @ quoted market_type @ ''. ''
                @ ''Supported markets: '' @ py_repr_list (get_supported_markets ad))), self, w)
      else
        case (if use_cache then
                (case map_of (cache self) market_type of
                   Some (timestamp, cached_data) \<Rightarrow>
                     if now_check - timestamp < cache_ttl self then Some cached_data else None
                 | None \<Rightarrow> None)
              else None) of
          Some cached_data \<Rightarrow> (Inr cached_data, self, w)
        | None \<Rightarrow>
            (case process_method ad market_type of
               None \<Rightarrow> (Inl (NotImplementedError (''Method process_'' @ market_type
                                @ '' not implemented'')), self, w)
             | Some method \<Rightarrow>
                 (case method w of
                    (Inl e, w') \<Rightarrow> (Inl e, self, w')
                  | (Inr (act, inact), w') \<Rightarrow>
                      (let result = \<lparr>active = act, inactive = inact\<rparr> in
                       (Inr result,
                        if use_cache
                        then self\<lparr>cache := AList.update market_type (now_store, result) (cache self)\<rparr>
                        else self,
                        w')))))"

section \<open>The Binance adapter (\<open>exchanges/binance.py\<close>)\<close>

definition binance_spot_url :: string where
  "binance_spot_url = ''https://api.binance.com/api/v3/exchangeInfo?permissions=SPOT''"

definition binance_futures_url :: string where
  "binance_futures_url = ''https://fapi.binance.com/fapi/v1/exchangeInfo''"

definition default_quote_asset :: string where
  "default_quote_asset = ''USDT''"

text \<open>The two loops of \<open>fetch_symbols_from_exchange\<close>, with the two lists they append to.\<close>

fun binance_spot_loop :: "json list \<Rightarrow> pydict list \<times> pydict list \<Rightarrow> error + pydict list \<times> pydict list" where
  "binance_spot_loop [] acc = Inr acc"
| "binance_spot_loop (item # items) (trading_symbols, non_trading_symbols) =
     (case py_get item ''quoteAsset'' JNull of
        Inl e \<Rightarrow> Inl e
      | Inr q \<Rightarrow>
          if q = JStr default_quote_asset then
            (case py_getitem item ''baseAsset'' of
               Inl e \<Rightarrow> Inl e
             | Inr b \<Rightarrow>
                 (case py_getitem item ''symbol'' of
                    Inl e \<Rightarrow> Inl e
                  | Inr s \<Rightarrow>
                      (case py_get item ''status'' JNull of
                         Inl e \<Rightarrow> Inl e
                       | Inr st \<Rightarrow>
                           if st = JStr ''TRADING''
                           then binance_spot_loop items
                                  (trading_symbols @ [[(''symbol'', b), (''pair'', s)]], non_trading_symbols)
                           else binance_spot_loop items
                                  (trading_symbols, non_trading_symbols @ [[(''symbol'', b), (''pair'', s)]]))))
          else binance_spot_loop items (trading_symbols, non_trading_symbols))"

fun binance_futures_loop :: "json list \<Rightarrow> pydict list \<times> pydict list \<Rightarrow> error + pydict list \<times> pydict list" where
  "binance_futures_loop [] acc = Inr acc"
| "binance_futures_loop (item # items) (trading_symbols, non_trading_symbols) =
     (case py_get item ''quoteAsset'' JNull of
        Inl e \<Rightarrow> Inl e
      | Inr q \<Rightarrow>
          if q = JStr default_quote_asset then
            (case py_get item ''contractType'' JNull of
               Inl e \<Rightarrow> Inl e
             | Inr ct \<Rightarrow>
                 if ct = JStr ''PERPETUAL'' then
                   (case py_getitem item ''baseAsset'' of
                      Inl e \<Rightarrow> Inl e
                    | Inr b \<Rightarrow>
                        (case py_getitem item ''pair'' of
                           Inl e \<Rightarrow> Inl e
                         | Inr s \<Rightarrow>
                             (case py_get item ''status'' JNull of
                                Inl e \<Rightarrow> Inl e
                              | Inr st \<Rightarrow>
                                  if st = JStr ''TRADING''
                                  then binance_futures_loop items
                                         (trading_symbols @ [[(''symbol'', b), (''pair'', s)]], non_trading_symbols)
                                  else binance_futures_loop items
                                         (trading_symbols, non_trading_symbols @ [[(''symbol'', b), (''pair'', s)]]))))
                 else binance_futures_loop items (trading_symbols, non_trading_symbols))
          else binance_futures_loop items (trading_symbols, non_trading_symbols))"

definition binance_fetch_symbols_from_exchange :: "string \<Rightarrow> string \<Rightarrow> world
    \<Rightarrow> (error + pydict list \<times> pydict list) \<times> world" where
  "binance_fetch_symbols_from_exchange url exchange w =
     (case fetch_with_retry url w of
        (Inl e, w') \<Rightarrow> (Inl e, w')
      | (Inr data, w') \<Rightarrow>
          if exchange = ''binance-spot'' then
            (case py_get data ''symbols'' (JArr []) of
               Inl e \<Rightarrow> (Inl e, w')
             | Inr syms \<Rightarrow>
                 (case py_iter syms of
                    Inl e \<Rightarrow> (Inl e, w')
                  | Inr items \<Rightarrow> (binance_spot_loop items ([], []), w')))
          else if exchange = ''binance-futures'' then
            (case py_get data ''symbols'' (JArr []) of
               Inl e \<Rightarrow> (Inl e, w')
             | Inr syms \<Rightarrow>
                 (case py_iter syms of
                    Inl e \<Rightarrow> (Inl e, w')
                  | Inr items \<Rightarrow> (binance_futures_loop items ([], []), w')))
          else (Inl (ValueError (''Invalid Binance exchange type: '' @ exchange)), w'))"

text \<open>
  \<open>process_spot\<close> and \<open>process_futures\<close>: \<open>fetch_symbols_retry\<close> forwards to
  \<open>fetch_symbols_from_exchange\<close>, and \<open>generate_symbol_updates\<close> forwards to the base class.
\<close>

definition binance_process :: "string \<Rightarrow> string \<Rightarrow> world \<Rightarrow> (error + pydict list \<times> pydict list) \<times> world" where
  "binance_process url exchange w =
     (case binance_fetch_symbols_from_exchange url exchange w of
        (Inl e, w') \<Rightarrow> (Inl e, w')
      | (Inr (trading_symbols, non_trading_symbols), w') \<Rightarrow>
          (Inr (generate_symbol_updates_with_non_trading exchange trading_symbols non_trading_symbols), w'))"

definition binance_process_spot :: "world \<Rightarrow> (error + pydict list \<times> pydict list) \<times> world" where
  "binance_process_spot = binance_process binance_spot_url ''binance-spot''"

definition binance_process_futures :: "world \<Rightarrow> (error + pydict list \<times> pydict list) \<times> world" where
  "binance_process_futures = binance_process binance_futures_url ''binance-futures''"

definition binance :: adapter where
  "binance =
     \<lparr>get_supported_markets = [''spot'', ''futures''],
      process_method = (\<lambda>m. if m = ''spot'' then Some binance_process_spot
                             else if m = ''futures'' then Some binance_process_futures
                             else None)\<rparr>"

subsection \<open>\<open>BinanceExchange.fetch_klines\<close>\<close>

definition binance_valid_intervals :: "string list" where
  "binance_valid_intervals =
     [''1s'', ''1m'', ''3m'', ''5m'', ''15m'', ''30m'', ''1h'', ''2h'', ''4h'', ''6h'', ''8h'',
      ''12h'', ''1d'', ''3d'', ''1w'', ''1M'']"

text \<open>\<open>if x: params[k] = x\<close> for an optional integer \<open>x\<close>: \<open>None\<close> and \<open>0\<close> add nothing.\<close>

definition optional_param :: "string \<Rightarrow> int option \<Rightarrow> (string \<times> string) list" where
  "optional_param k x = (case x of None \<Rightarrow> [] | Some n \<Rightarrow> if n \<noteq> 0 then [(k, str_int n)] else [])"

definition query_string :: "(string \<times> string) list \<Rightarrow> string" where
  "query_string params = join ''&'' (map (\<lambda>(k, v). k @ ''='' @ v) params)"

definition binance_klines_url :: "string \<Rightarrow> string \<Rightarrow> string \<Rightarrow> int option \<Rightarrow> int option \<Rightarrow> int
    \<Rightarrow> string \<Rightarrow> string" where
  "binance_klines_url symbol interval market start_time end_time limit timezone =
     (if market = ''spot'' then ''https://api.binance.com/api/v3/klines''
      else ''https://fapi.binance.com/fapi/v1/klines'')
     @ ''?'' @ query_string
        ([(''symbol'', symbol), (''interval'', interval), (''limit'', str_int limit)]
         @ (if market = ''spot'' \<and> truthy_str timezone then [(''timeZone'', timezone)] else [])
         @ optional_param ''startTime'' start_time
         @ optional_param ''endTime'' end_time)"

definition binance_kline_keys :: "string list" where
  "binance_kline_keys =
     [''open_time'', ''open'', ''high'', ''low'', ''close'', ''volume'', ''close_time'',
      ''quote_volume'', ''trades'', ''taker_buy_base'', ''taker_buy_quote'']"

definition binance_kline_row :: "json \<Rightarrow> error + pydict" where
  "binance_kline_row item =
     (case mapM (py_index item) [0..<11] of
        Inl e \<Rightarrow> Inl e
      | Inr vs \<Rightarrow> Inr (zip binance_kline_keys vs))"

definition binance_fetch_klines :: "string \<Rightarrow> string \<Rightarrow> string \<Rightarrow> int option \<Rightarrow> int option \<Rightarrow> int
    \<Rightarrow> string \<Rightarrow> world \<Rightarrow> (error + pydict list) \<times> world" where
  "binance_fetch_klines symbol interval market start_time end_time limit timezone w =
     (if interval \<notin> set binance_valid_intervals then
        (Inl (ValueError (''Invalid interval '' @ quoted interval @ ''. Supported intervals: ''
                @ join '', '' binance_valid_intervals)), w)
      else if limit > (if market = ''spot'' then 1000 else 1500) then
        (Inl (ValueError (''Limit cannot exceed '' @ str_int (if market = ''spot'' then 1000 else 1500)
                @ '' for '' @ market @ '' market'')), w)
      else if market \<noteq> ''spot'' \<and> market \<noteq> ''futures'' then
        (Inl (ValueError (''Invalid market type '' @ quoted market @ ''. Supported: ''
                @ quoted ''spot'' @ '', '' @ quoted ''futures'')), w)
      else
        (case fetch_with_retry
                (binance_klines_url symbol interval market start_time end_time limit timezone) w of
           (Inl e, w') \<Rightarrow> (Inl e, w')
         | (Inr raw_data, w') \<Rightarrow>
             (case py_iter raw_data of
                Inl e \<Rightarrow> (Inl e, w')
              | Inr items \<Rightarrow> (mapM binance_kline_row items, w'))))"

section \<open>The Bybit adapter (\<open>exchanges/bybit.py\<close>)\<close>

subsection \<open>Pair listing of Bybit\<close>

definition bybit_spot_url :: string where
  "bybit_spot_url =
     ''https://api.bybit.com/v5/market/instruments-info?category=spot&status=Trading&limit=1000''"

definition bybit_futures_url :: string where
  "bybit_futures_url =
     ''https://api.bybit.com/v5/market/instruments-info?category=linear&status=Trading&limit=1000''"

text \<open>
  The two list comprehensions of \<open>fetch_symbols_from_exchange\<close>. The first \<open>get\<close> of an
  item raises when the item is not a dict; after it the item is known to be one.
\<close>

fun bybit_spot_symbols :: "json list \<Rightarrow> error + pydict list" where
  "bybit_spot_symbols [] = Inr []"
| "bybit_spot_symbols (item # items) =
     (case py_get item ''quoteCoin'' JNull of
        Inl e \<Rightarrow> Inl e
      | Inr q \<Rightarrow>
          if q = JStr default_quote_asset \<and> field item ''status'' = JStr ''Trading'' then
            (case bybit_spot_symbols items of
               Inl e \<Rightarrow> Inl e
             | Inr symbols \<Rightarrow>
                 Inr ([(''symbol'', field item ''baseCoin''), (''pair'', field item ''symbol'')] # symbols))
          else bybit_spot_symbols items)"

fun bybit_futures_symbols :: "json list \<Rightarrow> error + pydict list" where
  "bybit_futures_symbols [] = Inr []"
| "bybit_futures_symbols (item # items) =
     (case py_get item ''quoteCoin'' JNull of
        Inl e \<Rightarrow> Inl e
      | Inr q \<Rightarrow>
          if q = JStr default_quote_asset \<and> field item ''contractType'' = JStr ''LinearPerpetual''
             \<and> field item ''status'' = JStr ''Trading'' then
            (case bybit_futures_symbols items of
               Inl e \<Rightarrow> Inl e
             | Inr symbols \<Rightarrow>
                 Inr ([(''symbol'', field item ''baseCoin''), (''pair'', field item ''symbol'')] # symbols))
          else bybit_futures_symbols items)"

text \<open>
  \<open>fetch_symbols_from_exchange\<close> of Bybit: the list is taken with
  \<open>data.get("result", {}).get("list", [])\<close> right after the fetch; the non-trading list is
  always empty.
\<close>

definition bybit_fetch_symbols_from_exchange :: "string \<Rightarrow> string \<Rightarrow> world
    \<Rightarrow> (error + pydict list \<times> pydict list) \<times> world" where
  "bybit_fetch_symbols_from_exchange url exchange w =
     (case fetch_with_retry url w of
        (Inl e, w') \<Rightarrow> (Inl e, w')
      | (Inr data, w') \<Rightarrow>
          (case py_get data ''result'' (JObj []) of
             Inl e \<Rightarrow> (Inl e, w')
           | Inr res \<Rightarrow>
               (case py_get res ''list'' (JArr []) of
                  Inl e \<Rightarrow> (Inl e, w')
                | Inr result_list \<Rightarrow>
                    if exchange = ''bybit-spot'' then
                      (case py_iter result_list of
                         Inl e \<Rightarrow> (Inl e, w')
                       | Inr items \<Rightarrow>
                           (case bybit_spot_symbols items of
                              Inl e \<Rightarrow> (Inl e, w')
                            | Inr trading_symbols \<Rightarrow> (Inr (trading_symbols, []), w')))
                    else if exchange = ''bybit-futures'' then
                      (case py_iter result_list of
                         Inl e \<Rightarrow> (Inl e, w')
                       | Inr items \<Rightarrow>
                           (case bybit_futures_symbols items of
                              Inl e \<Rightarrow> (Inl e, w')
                            | Inr trading_symbols \<Rightarrow> (Inr (trading_symbols, []), w')))
                    else (Inl (ValueError (''Invalid Bybit exchange type: '' @ exchange)), w'))))"

definition bybit_process :: "string \<Rightarrow> string \<Rightarrow> world \<Rightarrow> (error + pydict list \<times> pydict list) \<times> world" where
  "bybit_process url exchange w =
     (case bybit_fetch_symbols_from_exchange url exchange w of
        (Inl e, w') \<Rightarrow> (Inl e, w')
      | (Inr (trading_symbols, non_trading_symbols), w') \<Rightarrow>
          (Inr (generate_symbol_updates_with_non_trading exchange trading_symbols non_trading_symbols), w'))"

definition bybit_process_spot :: "world \<Rightarrow> (error + pydict list \<times> pydict list) \<times> world" where
  "bybit_process_spot = bybit_process bybit_spot_url ''bybit-spot''"

definition bybit_process_futures :: "world \<Rightarrow> (error + pydict list \<times> pydict list) \<times> world" where
  "bybit_process_futures = bybit_process bybit_futures_url ''bybit-futures''"

definition bybit :: adapter where
  "bybit =
     \<lparr>get_supported_markets = [''spot'', ''futures''],
      process_method = (\<lambda>m. if m = ''spot'' then Some bybit_process_spot
                             else if m = ''futures'' then Some bybit_process_futures
                             else None)\<rparr>"

subsection \<open>Klines, funding rates and open interest of Bybit\<close>

definition bybit_valid_intervals :: "string list" where
  "bybit_valid_intervals =
     [''1'', ''3'', ''5'', ''15'', ''30'', ''60'', ''120'', ''240'', ''360'', ''720'', ''D'', ''W'', ''M'']"

text \<open>
  The check of the response envelope, written out in \<open>fetch_klines\<close> and in
  \<open>fetch_funding_rate_history\<close>: raise when \<open>retCode != 0\<close>, else take
  \<open>response.get("result", {}).get("list", [])\<close>.
\<close>

definition bybit_result_list :: "(json \<Rightarrow> string) \<Rightarrow> json \<Rightarrow> error + json" where
  "bybit_result_list str_other response =
     (case py_get response ''retCode'' JNull of
        Inl e \<Rightarrow> Inl e
      | Inr code \<Rightarrow>
          if py_ne_int code 0 then
            (case py_get response ''retMsg'' (JStr ''Unknown error'') of
               Inl e \<Rightarrow> Inl e
             | Inr msg \<Rightarrow> Inl (Exception (''Bybit API error: '' @ py_format str_other msg)))
          else
            (case py_get response ''result'' (JObj []) of
               Inl e \<Rightarrow> Inl e
             | Inr res \<Rightarrow> py_get res ''list'' (JArr [])))"

definition bybit_kline_row :: "(string \<Rightarrow> int option) \<Rightarrow> json \<Rightarrow> error + pydict" where
  "bybit_kline_row int_of_str item =
     (case py_index item 0 of
        Inl e \<Rightarrow> Inl e
      | Inr v \<Rightarrow>
          (case py_int int_of_str v of
             Inl e \<Rightarrow> Inl e
           | Inr open_time \<Rightarrow>
               (case mapM (py_index item) [1..<7] of
                  Inl e \<Rightarrow> Inl e
                | Inr vs \<Rightarrow>
                    Inr ((''open_time'', JInt open_time)
                         # zip [''open'', ''high'', ''low'', ''close'', ''volume'', ''turnover''] vs))))"

text \<open>
  The loop over the rows and the final \<open>klines.reverse()\<close>: the vendor sends the newest
  row first.
\<close>

definition bybit_parse_klines :: "(string \<Rightarrow> int option) \<Rightarrow> json \<Rightarrow> error + pydict list" where
  "bybit_parse_klines int_of_str raw_data =
     (case py_iter raw_data of
        Inl e \<Rightarrow> Inl e
      | Inr items \<Rightarrow>
          (case mapM (bybit_kline_row int_of_str) items of
             Inl e \<Rightarrow> Inl e
           | Inr klines \<Rightarrow> Inr (rev klines)))"

definition bybit_klines_url :: "string \<Rightarrow> string \<Rightarrow> string \<Rightarrow> int option \<Rightarrow> int option \<Rightarrow> int
    \<Rightarrow> string" where
  "bybit_klines_url symbol interval market start_time end_time limit =
     ''https://api.bybit.com/v5/market/kline'' @ ''?'' @ query_string
        ([(''symbol'', symbol), (''interval'', interval),
          (''category'', if market = ''spot'' then ''spot'' else ''linear''),
          (''limit'', str_int limit)]
         @ optional_param ''start'' start_time
         @ optional_param ''end'' end_time)"

definition bybit_fetch_klines :: "(string \<Rightarrow> int option) \<Rightarrow> (json \<Rightarrow> string) \<Rightarrow> string \<Rightarrow> string
    \<Rightarrow> string \<Rightarrow> int option \<Rightarrow> int option \<Rightarrow> int \<Rightarrow> string \<Rightarrow> world
    \<Rightarrow> (error + pydict list) \<times> world" where
  "bybit_fetch_klines int_of_str str_other symbol interval market start_time end_time limit timezone w =
     (if interval \<notin> set bybit_valid_intervals then
        (Inl (ValueError (''Invalid interval '' @ quoted interval @ ''. Supported intervals: ''
                @ join '', '' bybit_valid_intervals)), w)
      else if limit > 1000 \<or> limit < 1 then
        (Inl (ValueError ''Limit must be between 1 and 1000''), w)
      else if market \<noteq> ''spot'' \<and> market \<noteq> ''futures'' then
        (Inl (ValueError (''Invalid market type '' @ quoted market @ ''. Supported: ''
                @ quoted ''spot'' @ '', '' @ quoted ''futures'')), w)
      else
        (case fetch_with_retry (bybit_klines_url symbol interval market start_time end_time limit) w of
           (Inl e, w') \<Rightarrow> (Inl e, w')
         | (Inr response, w') \<Rightarrow>
             (case bybit_result_list str_other response of
                Inl e \<Rightarrow> (Inl e, w')
              | Inr raw_data \<Rightarrow> (bybit_parse_klines int_of_str raw_data, w'))))"

definition bybit_funding_row :: "json \<Rightarrow> error + pydict" where
  "bybit_funding_row item =
     (case py_get item ''symbol'' JNull of
        Inl e \<Rightarrow> Inl e
      | Inr symbol \<Rightarrow>
          Inr [(''symbol'', symbol), (''funding_rate'', field item ''fundingRate''),
               (''funding_rate_timestamp'', field item ''fundingRateTimestamp'')])"

definition bybit_parse_funding_rates :: "json \<Rightarrow> error + pydict list" where
  "bybit_parse_funding_rates raw_data =
     (case py_iter raw_data of
        Inl e \<Rightarrow> Inl e
      | Inr items \<Rightarrow> mapM bybit_funding_row items)"

definition bybit_funding_url :: "string \<Rightarrow> int option \<Rightarrow> int option \<Rightarrow> int \<Rightarrow> string" where
  "bybit_funding_url symbol start_time end_time limit =
     ''https://api.bybit.com/v5/market/funding/history'' @ ''?'' @ query_string
        ([(''category'', ''linear''), (''symbol'', symbol), (''limit'', str_int limit)]
         @ optional_param ''startTime'' start_time
         @ optional_param ''endTime'' end_time)"

definition bybit_fetch_funding_rate_history :: "(json \<Rightarrow> string) \<Rightarrow> string \<Rightarrow> int option \<Rightarrow> int option
    \<Rightarrow> int \<Rightarrow> string \<Rightarrow> world \<Rightarrow> (error + pydict list) \<times> world" where
  "bybit_fetch_funding_rate_history str_other symbol start_time end_time limit market w =
     (if limit > 200 \<or> limit < 1 then
        (Inl (ValueError ''Limit must be between 1 and 200''), w)
      else if start_time \<noteq> None \<and> end_time = None then
        (Inl (ValueError ''If startTime is provided, endTime must also be provided''), w)
      else if market \<noteq> ''futures'' then
        (Inl (ValueError (''Invalid market type '' @ quoted market @ ''. Supported: ''
                @ quoted ''futures'')), w)
      else
        (case fetch_with_retry (bybit_funding_url symbol start_time end_time limit) w of
           (Inl e, w') \<Rightarrow> (Inl e, w')
         | (Inr response, w') \<Rightarrow>
             (case bybit_result_list str_other response of
                Inl e \<Rightarrow> (Inl e, w')
              | Inr raw_data \<Rightarrow> (bybit_parse_funding_rates raw_data, w'))))"

definition bybit_open_interest_intervals :: "string list" where
  "bybit_open_interest_intervals = [''5min'', ''15min'', ''30min'', ''1h'', ''4h'', ''1d'']"

definition bybit_open_interest_url :: "string \<Rightarrow> string \<Rightarrow> int option \<Rightarrow> int option \<Rightarrow> int
    \<Rightarrow> string" where
  "bybit_open_interest_url symbol interval start_time end_time limit =
     ''https://api.bybit.com/v5/market/open-interest'' @ ''?'' @ query_string
        ([(''category'', ''linear''), (''symbol'', symbol), (''intervalTime'', interval),
          (''limit'', str_int limit)]
         @ optional_param ''startTime'' start_time
         @ optional_param ''endTime'' end_time)"

definition bybit_open_interest_row :: "json \<Rightarrow> json \<Rightarrow> error + pydict" where
  "bybit_open_interest_row symbol_from_response item =
     (case py_get item ''openInterest'' JNull of
        Inl e \<Rightarrow> Inl e
      | Inr oi \<Rightarrow>
          Inr [(''symbol'', symbol_from_response), (''open_interest'', oi),
               (''timestamp'', field item ''timestamp'')])"

text \<open>
  \<open>fetch_open_interest\<close> has the same test of \<open>retCode\<close>, and reads the symbol of the result
  before the list.
\<close>

definition bybit_fetch_open_interest :: "(json \<Rightarrow> string) \<Rightarrow> string \<Rightarrow> string \<Rightarrow> int option
    \<Rightarrow> int option \<Rightarrow> int \<Rightarrow> string \<Rightarrow> world \<Rightarrow> (error + pydict list) \<times> world" where
  "bybit_fetch_open_interest str_other symbol interval start_time end_time limit market w =
     (if interval \<notin> set bybit_open_interest_intervals then
        (Inl (ValueError (''Invalid interval '' @ quoted interval @ ''. Supported intervals: ''
                @ join '', '' bybit_open_interest_intervals)), w)
      else if limit > 200 \<or> limit < 1 then
        (Inl (ValueError ''Limit must be between 1 and 200''), w)
      else if market \<noteq> ''futures'' then
        (Inl (ValueError (''Invalid market type '' @ quoted market @ ''. Supported: ''
                @ quoted ''futures'')), w)
      else
        (case fetch_with_retry (bybit_open_interest_url symbol interval start_time end_time limit) w of
           (Inl e, w') \<Rightarrow> (Inl e, w')
         | (Inr response, w') \<Rightarrow>
             (case py_get response ''retCode'' JNull of
                Inl e \<Rightarrow> (Inl e, w')
              | Inr code \<Rightarrow>
                  if py_ne_int code 0 then
                    (case py_get response ''retMsg'' (JStr ''Unknown error'') of
                       Inl e \<Rightarrow> (Inl e, w')
                     | Inr msg \<Rightarrow>
                         (Inl (Exception (''Bybit API error: '' @ py_format str_other msg)), w'))
                  else
                    (case py_get response ''result'' (JObj []) of
                       Inl e \<Rightarrow> (Inl e, w')
                     | Inr res \<Rightarrow>
                         (case py_get res ''symbol'' JNull of
                            Inl e \<Rightarrow> (Inl e, w')
                          | Inr symbol_from_response \<Rightarrow>
                              (case py_get res ''list'' (JArr []) of
                                 Inl e \<Rightarrow> (Inl e, w')
                               | Inr raw_data \<Rightarrow>
                                   (case py_iter raw_data of
                                      Inl e \<Rightarrow> (Inl e, w')
                                    | Inr items \<Rightarrow>
                                        (mapM (bybit_open_interest_row symbol_from_response) items,
                                         w'))))))))"

section \<open>The Hyperliquid adapter (\<open>exchanges/hyperliquid.py\<close>)\<close>

definition fetch_with_retry_post :: "string \<Rightarrow> json \<Rightarrow> world \<Rightarrow> (error + json) \<times> world" where
  "fetch_with_retry_post url payload =
     retry 3 (wait_exponential 1 2 10) (http_request (Post url payload)) 1"

text \<open>
  The 24-hour price change of one asset context, as \<open>fetch_market_data\<close> computes it and
  stores it under \<open>price_change_24h\<close>: \<open>round(x, 2)\<close> of the float
  \<open>(mark_px - prev_day_px) / prev_day_px * 100\<close> when \<open>prev_day_px > 0\<close>, and of the integer
  \<open>0\<close> otherwise.
\<close>

definition price_change_24h :: "(string \<Rightarrow> rat option) \<Rightarrow> json \<Rightarrow> error + json" where
  "price_change_24h float_of_str ctx =
     (case py_get ctx ''markPx'' (JInt 0) of
        Inl e \<Rightarrow> Inl e
      | Inr m \<Rightarrow>
          (case py_float float_of_str m of
             Inl e \<Rightarrow> Inl e
           | Inr mark_px \<Rightarrow>
               (case py_get ctx ''prevDayPx'' (JInt 0) of
                  Inl e \<Rightarrow> Inl e
                | Inr p \<Rightarrow>
                    (case py_float float_of_str p of
                       Inl e \<Rightarrow> Inl e
                     | Inr prev_day_px \<Rightarrow>
                         if prev_day_px > 0 then
                           (case float_div (float_sub mark_px prev_day_px) prev_day_px of
                              Inl e \<Rightarrow> Inl e
                            | Inr q \<Rightarrow> Inr (JFloat (float_round2 (float_mul q 100))))
                         else Inr (JInt 0)))))"

text \<open>
  The dict of one market. The context and the asset information are known to be dicts
  when it is built (their \<open>get\<close> has succeeded before), so the other keys are read with
  \<open>field\<close>.
\<close>

definition market_data :: "(string \<Rightarrow> rat option) \<Rightarrow> json \<Rightarrow> json \<Rightarrow> json \<Rightarrow> error + pydict" where
  "market_data float_of_str asset_info asset_name ctx =
     (case price_change_24h float_of_str ctx of
        Inl e \<Rightarrow> Inl e
      | Inr change \<Rightarrow>
          Inr [(''symbol'', asset_name),
               (''mark_price'', field ctx ''markPx''),
               (''oracle_price'', field ctx ''oraclePx''),
               (''mid_price'', field ctx ''midPx''),
               (''prev_day_price'', field ctx ''prevDayPx''),
               (''price_change_24h'', change),
               (''volume_24h_base'', field ctx ''dayBaseVlm''),
               (''volume_24h_usd'', field ctx ''dayNtlVlm''),
               (''funding_rate'', field ctx ''funding''),
               (''open_interest'', field ctx ''openInterest''),
               (''premium'', field ctx ''premium''),
               (''max_leverage'', field asset_info ''maxLeverage''),
               (''size_decimals'', field asset_info ''szDecimals''),
               (''is_delisted'', (case py_get asset_info ''isDelisted'' (JBool False) of
                                    Inr v \<Rightarrow> v | Inl e \<Rightarrow> JBool False))])"

fun markets_loop :: "(string \<Rightarrow> rat option) \<Rightarrow> string option \<Rightarrow> json \<Rightarrow> nat \<Rightarrow> json list
    \<Rightarrow> error + pydict list" where
  "markets_loop float_of_str symbol asset_ctxs i [] = Inr []"
| "markets_loop float_of_str symbol asset_ctxs i (asset_info # rest) =
     (case py_get asset_info ''name'' JNull of
        Inl e \<Rightarrow> Inl e
      | Inr asset_name \<Rightarrow>
          if (case symbol of None \<Rightarrow> False | Some s \<Rightarrow> truthy_str s \<and> asset_name \<noteq> JStr s)
          then markets_loop float_of_str symbol asset_ctxs (i + 1) rest
          else
            (case py_len asset_ctxs of
               Inl e \<Rightarrow> Inl e
             | Inr n \<Rightarrow>
                 if i < n then
                   (case py_index asset_ctxs i of
                      Inl e \<Rightarrow> Inl e
                    | Inr ctx \<Rightarrow>
                        (case market_data float_of_str asset_info asset_name ctx of
                           Inl e \<Rightarrow> Inl e
                         | Inr md \<Rightarrow>
                             (case markets_loop float_of_str symbol asset_ctxs (i + 1) rest of
                                Inl e \<Rightarrow> Inl e
                              | Inr markets \<Rightarrow> Inr (md # markets))))
                 else markets_loop float_of_str symbol asset_ctxs (i + 1) rest))"

definition hyperliquid_fetch_market_data :: "(string \<Rightarrow> rat option) \<Rightarrow> string option \<Rightarrow> world
    \<Rightarrow> (error + pydict list) \<times> world" where
  "hyperliquid_fetch_market_data float_of_str symbol w =
     (case fetch_with_retry_post ''https://api.hyperliquid.xyz/info''
             (JObj [(''type'', JStr ''metaAndAssetCtxs'')]) w of
        (Inl e, w') \<Rightarrow> (Inl e, w')
      | (Inr data, w') \<Rightarrow>
          (case py_index data 0 of
             Inl e \<Rightarrow> (Inl e, w')
           | Inr meta \<Rightarrow>
               (case py_index data 1 of
                  Inl e \<Rightarrow> (Inl e, w')
                | Inr asset_ctxs \<Rightarrow>
                    (case py_get meta ''universe'' (JArr []) of
                       Inl e \<Rightarrow> (Inl e, w')
                     | Inr universe \<Rightarrow>
                         (case py_iter universe of
                            Inl e \<Rightarrow> (Inl e, w')
                          | Inr items \<Rightarrow> (markets_loop float_of_str symbol asset_ctxs 0 items, w'))))))"

section \<open>Vocabulary of the specification and example inputs\<close>

text \<open>
  The \<open>spec_\<close> definitions say in the specification's words what the pair listing of
  Binance spot returns; they are compared with the code in the properties below.
\<close>

definition spec_usdt_symbol :: "json \<Rightarrow> bool" where
  "spec_usdt_symbol item \<longleftrightarrow>
     (case item of
        JObj kv \<Rightarrow> map_of kv ''quoteAsset'' = Some (JStr ''USDT'')
                   \<and> map_of kv ''baseAsset'' \<noteq> None \<and> map_of kv ''symbol'' \<noteq> None
      | _ \<Rightarrow> False)"

definition spec_trading :: "json \<Rightarrow> bool" where
  "spec_trading item \<longleftrightarrow> field item ''status'' = JStr ''TRADING''"

definition spec_trading_pair :: "string \<Rightarrow> bool \<Rightarrow> json \<Rightarrow> pydict" where
  "spec_trading_pair exchange is_active item =
     [(''symbol'', field item ''baseAsset''), (''pair'', field item ''symbol''),
      (''exchange'', JStr exchange), (''is_active'', JBool is_active)]"

definition spec_binance_spot_pairs :: "json list \<Rightarrow> pair_set" where
  "spec_binance_spot_pairs items =
     \<lparr>active = map (spec_trading_pair ''binance-spot'' True) (filter spec_trading items),
      inactive = map (spec_trading_pair ''binance-spot'' False) (filter (\<lambda>i. \<not> spec_trading i) items)\<rparr>"

text \<open>
  The error category "network/transport error" of the specification, the start time of a
  vendor row and the open time of a returned kline.
\<close>

definition spec_transport_error :: "error \<Rightarrow> bool" where
  "spec_transport_error e =
     (case e of TransportError m \<Rightarrow> True | HTTPStatusError c \<Rightarrow> True | RetryError e' \<Rightarrow> True
      | _ \<Rightarrow> False)"

definition spec_start_time :: "(string \<Rightarrow> int option) \<Rightarrow> json \<Rightarrow> int" where
  "spec_start_time int_of_str row =
     (case py_index row 0 of
        Inr v \<Rightarrow> (case py_int int_of_str v of Inr n \<Rightarrow> n | Inl e \<Rightarrow> 0)
      | Inl e \<Rightarrow> 0)"

definition open_time_of :: "pydict \<Rightarrow> int" where
  "open_time_of kline = (case map_of kline ''open_time'' of Some (JInt n) \<Rightarrow> n | _ \<Rightarrow> 0)"

text \<open>
  Stand-ins for the built-in conversions in the examples: \<open>int\<close> of a string of decimal
  digits, and a placeholder for \<open>str\<close> of a float, list or dict.
\<close>

definition decimal_of_str :: "string \<Rightarrow> int option" where
  "decimal_of_str s =
     (if s \<noteq> [] \<and> list_all (\<lambda>c. 48 \<le> (of_char c :: nat) \<and> (of_char c :: nat) \<le> 57) s
      then Some (foldl (\<lambda>n c. 10 * n + (of_char c - 48)) 0 s)
      else None)"

definition str_placeholder :: "json \<Rightarrow> string" where
  "str_placeholder v = ''...''"

definition example_bybit_error :: json where
  "example_bybit_error =
     JObj [(''retCode'', JInt 10001), (''retMsg'', JStr ''params error: Symbol Invalid''),
           (''result'', JObj [])]"

definition script_bybit_error :: "nat \<Rightarrow> http_outcome" where
  "script_bybit_error k = Json example_bybit_error"

definition example_bybit_row :: "string \<Rightarrow> string \<Rightarrow> json" where
  "example_bybit_row start close =
     JArr [JStr start, JStr ''17071'', JStr ''17073'', JStr ''17027'', JStr close,
           JStr ''268611'', JStr ''15.74'']"

definition example_bybit_klines :: json where
  "example_bybit_klines =
     JObj [(''retCode'', JInt 0), (''retMsg'', JStr ''OK''),
           (''result'', JObj [(''symbol'', JStr ''BTCUSDT''), (''category'', JStr ''spot''),
              (''list'', JArr [example_bybit_row ''1670608800000'' ''17055'',
                               example_bybit_row ''1670605200000'' ''17071'',
                               example_bybit_row ''1670601600000'' ''17086''])])]"

definition script_bybit_klines :: "nat \<Rightarrow> http_outcome" where
  "script_bybit_klines k = Json example_bybit_klines"

definition example_bybit_rows :: "json list" where
  "example_bybit_rows =
     [example_bybit_row ''1670608800000'' ''17055'',
      example_bybit_row ''1670605200000'' ''17071'',
      example_bybit_row ''1670601600000'' ''17086'']"

definition example_bybit_kline :: "int \<Rightarrow> string \<Rightarrow> pydict" where
  "example_bybit_kline open_time close =
     [(''open_time'', JInt open_time), (''open'', JStr ''17071''), (''high'', JStr ''17073''),
      (''low'', JStr ''17027''), (''close'', JStr close), (''volume'', JStr ''268611''),
      (''turnover'', JStr ''15.74'')]"

definition example_bybit_output :: "pydict list" where
  "example_bybit_output =
     [example_bybit_kline 1670601600000 ''17086'',
      example_bybit_kline 1670605200000 ''17071'',
      example_bybit_kline 1670608800000 ''17055'']"

text \<open>A world in which nothing has been sent yet, and some scripts.\<close>

definition fresh_world :: "(nat \<Rightarrow> http_outcome) \<Rightarrow> world" where
  "fresh_world s = \<lparr>script = s, sent = [], slept = []\<rparr>"

definition script_bad_json_then_ok :: "nat \<Rightarrow> http_outcome" where
  "script_bad_json_then_ok k = (if k = 0 then BadJson else Json JNull)"

definition script_always_timeout :: "nat \<Rightarrow> http_outcome" where
  "script_always_timeout k = TransportFail ''timeout''"

definition example_symbol :: "string \<Rightarrow> string \<Rightarrow> string \<Rightarrow> json" where
  "example_symbol base quote status =
     JObj [(''symbol'', JStr (base @ quote)), (''status'', JStr status),
           (''baseAsset'', JStr base), (''quoteAsset'', JStr quote)]"

definition example_symbols :: "json list" where
  "example_symbols =
     [example_symbol ''BTC'' ''USDT'' ''TRADING'',
      example_symbol ''HIFI'' ''USDT'' ''BREAK'',
      example_symbol ''ETH'' ''USDT'' ''TRADING'']"

definition example_exchange_info :: json where
  "example_exchange_info = JObj [(''timezone'', JStr ''UTC''), (''symbols'', JArr example_symbols)]"

definition script_exchange_info :: "nat \<Rightarrow> http_outcome" where
  "script_exchange_info k = Json example_exchange_info"

definition script_two_failures_then_ok :: "nat \<Rightarrow> http_outcome" where
  "script_two_failures_then_ok k =
     (if k = 0 then StatusFail 503 else if k = 1 then BadJson else Json JNull)"

definition example_first_call :: "(error + pair_set) \<times> adapter_instance \<times> world" where
  "example_first_call =
     fetch_all_pairs binance ''spot'' True 1000 1001
       (new_instance BinanceExchange None) (fresh_world script_exchange_info)"

definition example_second_call :: "(error + pair_set) \<times> adapter_instance \<times> world" where
  "example_second_call =
     fetch_all_pairs binance ''spot'' True 1030 1031
       (fst (snd example_first_call)) (snd (snd example_first_call))"

definition example_third_call :: "(error + pair_set) \<times> adapter_instance \<times> world" where
  "example_third_call =
     fetch_all_pairs binance ''spot'' True 1061 1062
       (fst (snd example_second_call)) (snd (snd example_second_call))"

definition example_cached_instance :: adapter_instance where
  "example_cached_instance =
     (new_instance BinanceExchange None)\<lparr>cache := [(''spot'', 1000, \<lparr>active = [], inactive = []\<rparr>)]\<rparr>"

definition example_float_of_str :: "string \<Rightarrow> rat option" where
  "example_float_of_str s =
     (if s = ''101540.0'' then Some 101540
      else if s = ''102983.0'' then Some 102983
      else if s = ''0.0'' then Some 0
      else None)"

definition example_ctx :: json where
  "example_ctx = JObj [(''markPx'', JStr ''101540.0''), (''prevDayPx'', JStr ''102983.0'')]"

definition example_ctx_zero :: json where
  "example_ctx_zero = JObj [(''markPx'', JStr ''101540.0''), (''prevDayPx'', JStr ''0.0'')]"

definition example_ctx_absent :: json where
  "example_ctx_absent = JObj [(''markPx'', JStr ''101540.0'')]"

definition example_asset_info :: json where
  "example_asset_info = JObj [(''name'', JStr ''BTC''), (''szDecimals'', JInt 5), (''maxLeverage'', JInt 40)]"

definition example_meta_and_asset_ctxs :: json where
  "example_meta_and_asset_ctxs =
     JArr [JObj [(''universe'',
                  JArr [example_asset_info,
                        JObj [(''name'', JStr ''NEW''), (''szDecimals'', JInt 2), (''maxLeverage'', JInt 3)]])],
           JArr [example_ctx, example_ctx_zero]]"

definition script_hyperliquid :: "nat \<Rightarrow> http_outcome" where
  "script_hyperliquid k = Json example_meta_and_asset_ctxs"

definition example_btc_market :: pydict where
  "example_btc_market =
     [(''symbol'', JStr ''BTC''), (''mark_price'', JStr ''101540.0''), (''oracle_price'', JNull),
      (''mid_price'', JNull), (''prev_day_price'', JStr ''102983.0''),
      (''price_change_24h'', JFloat (fl (- 1.40))), (''volume_24h_base'', JNull),
      (''volume_24h_usd'', JNull), (''funding_rate'', JNull), (''open_interest'', JNull),
      (''premium'', JNull), (''max_leverage'', JInt 40), (''size_decimals'', JInt 5),
      (''is_delisted'', JBool False)]"

section \<open>Properties\<close>

subsection \<open>Rendering of lists of names\<close>

lemma sublist_join:
  "x \<in> set xs \<Longrightarrow> sublist x (join sep xs)"
proof (induction sep xs rule: join.induct)
  case (1 sep)
  then show ?case by simp
next
  case (2 sep x')
  then show ?case by simp
next
  case (3 sep x' y ys)
  show ?case
  proof (cases "x = x'")
    case True
    then show ?thesis by (simp add: sublist_append_rightI)
  next
    case False
    with 3 have "sublist x (join sep (y # ys))" by simp
    then obtain p q where "join sep (y # ys) = p @ x @ q"
      by (auto simp: sublist_def)
    then have "join sep (x' # y # ys) = (x' @ sep @ p) @ x @ q"
      by simp
    then show ?thesis
      unfolding sublist_def by blast
  qed
qed

lemma sublist_py_repr_list:
  assumes "s \<in> set xs"
  shows "sublist (py_repr_str s) (pre @ py_repr_list xs)"
proof -
  from assms have "sublist (py_repr_str s) (join '', '' (map py_repr_str xs))"
    by (intro sublist_join) simp
  then obtain p q where "join '', '' (map py_repr_str xs) = p @ py_repr_str s @ q"
    by (auto simp: sublist_def)
  then have "pre @ py_repr_list xs = (pre @ ''['' @ p) @ py_repr_str s @ (q @ '']'')"
    by (simp add: py_repr_list_def)
  then show ?thesis
    unfolding sublist_def by blast
qed

lemma map_of_update_same: "map_of (AList.update k v al) k = Some v"
  by (simp add: update_conv')

subsection \<open>Steps of the retry loop\<close>

lemma wait_values:
  "wait_exponential 1 2 10 1 = 2" "wait_exponential 1 2 10 2 = 2"
  "wait_exponential (Suc 0) 2 10 (Suc 0) = 2" "wait_exponential (Suc 0) 2 10 2 = 2"
  by (simp_all add: wait_exponential_def)

lemma http_request_Json:
  "script w (length (sent w)) = Json j \<Longrightarrow> http_request rq w = (Inr j, w\<lparr>sent := sent w @ [rq]\<rparr>)"
  by (simp add: http_request_def)

lemma http_request_fail:
  "\<not> is_Json (script w (length (sent w))) \<Longrightarrow> \<exists>e. http_request rq w = (Inl e, w\<lparr>sent := sent w @ [rq]\<rparr>)"
  by (cases "script w (length (sent w))") (simp_all add: http_request_def)

lemma retry_success:
  "body w = (Inr r, w') \<Longrightarrow> retry m wt body n w = (Inr r, w')"
  by (subst retry.simps) simp

lemma retry_again:
  "body w = (Inl e, w') \<Longrightarrow> n < m \<Longrightarrow>
     retry m wt body n w = retry m wt body (n + 1) (w'\<lparr>slept := slept w' @ [wt n]\<rparr>)"
  by (subst retry.simps) (simp add: stop_after_attempt_def)

lemma retry_give_up:
  "body w = (Inl e, w') \<Longrightarrow> m \<le> n \<Longrightarrow> retry m wt body n w = (Inl (RetryError e), w')"
  by (subst retry.simps) (simp add: stop_after_attempt_def)

lemma retry_first:
  assumes "body w = (Inl e, w')"
  shows "retry 3 wt body 1 w = retry 3 wt body 2 (w'\<lparr>slept := slept w' @ [wt 1]\<rparr>)"
proof -
  have "(1::nat) < 3" by simp
  with assms
  have "retry 3 wt body 1 w = retry 3 wt body (1 + 1) (w'\<lparr>slept := slept w' @ [wt 1]\<rparr>)"
    by (rule retry_again)
  moreover have "(1::nat) + 1 = 2" by simp
  ultimately show ?thesis by (simp only:)
qed

lemma retry_second:
  assumes "body w = (Inl e, w')"
  shows "retry 3 wt body 2 w = retry 3 wt body 3 (w'\<lparr>slept := slept w' @ [wt 2]\<rparr>)"
proof -
  have "(2::nat) < 3" by simp
  with assms
  have "retry 3 wt body 2 w = retry 3 wt body (2 + 1) (w'\<lparr>slept := slept w' @ [wt 2]\<rparr>)"
    by (rule retry_again)
  moreover have "(2::nat) + 1 = 3" by simp
  ultimately show ?thesis by (simp only:)
qed

lemma retry_sent_prefix:
  assumes "\<And>w. sent (snd (body w)) = sent w @ [rq]"
  shows "prefix (sent w @ [rq]) (sent (snd (retry m wt body n w)))"
  using assms
proof (induction m wt body n w rule: retry.induct)
  case (1 m wt body n w)
  obtain res w' where bw: "body w = (res, w')" by (cases "body w")
  with "1.prems" [of w] have sw: "sent w' = sent w @ [rq]" by simp
  show ?case
  proof (cases res)
    case (Inr r)
    with bw sw show ?thesis by (subst retry.simps) simp
  next
    case (Inl e)
    show ?thesis
    proof (cases "stop_after_attempt m n")
      case True
      with bw sw Inl show ?thesis by (subst retry.simps) simp
    next
      case False
      let ?w'' = "w'\<lparr>slept := slept w' @ [wt n]\<rparr>"
      from "1.IH" [OF bw [symmetric] _ False, of e] Inl "1.prems"
      have "prefix (sent ?w'' @ [rq]) (sent (snd (retry m wt body (n + 1) ?w'')))"
        by simp
      then have "prefix (sent w @ [rq]) (sent (snd (retry m wt body (n + 1) ?w'')))"
        using sw by (auto simp: prefix_def)
      with bw Inl False show ?thesis by (subst retry.simps) simp
    qed
  qed
qed

lemma fetch_with_retry_sent:
  "prefix (sent w @ [Get url]) (sent (snd (fetch_with_retry url w)))"
  unfolding fetch_with_retry_def
  by (rule retry_sent_prefix) (simp add: http_request_def Let_def split: http_outcome.splits)

lemma fetch_with_retry_first_ok:
  "script w (length (sent w)) = Json j \<Longrightarrow>
     fetch_with_retry url w = (Inr j, w\<lparr>sent := sent w @ [Get url]\<rparr>)"
  by (simp add: fetch_with_retry_def retry_success http_request_Json)

lemma bybit_kline_row_open_time:
  "bybit_kline_row int_of_str row = Inr kline \<Longrightarrow> open_time_of kline = spec_start_time int_of_str row"
  by (auto simp: bybit_kline_row_def open_time_of_def spec_start_time_def split: sum.splits)

lemma mapM_bybit_open_times:
  "mapM (bybit_kline_row int_of_str) rows = Inr klines \<Longrightarrow>
     map open_time_of klines = map (spec_start_time int_of_str) rows"
proof (induction rows arbitrary: klines)
  case Nil
  then show ?case by simp
next
  case (Cons row rows)
  then obtain k ks where k: "bybit_kline_row int_of_str row = Inr k"
      and ks: "mapM (bybit_kline_row int_of_str) rows = Inr ks" and kl: "klines = k # ks"
    by (auto split: sum.splits)
  from Cons.IH [OF ks] bybit_kline_row_open_time [OF k] kl show ?case by simp
qed

lemma py_get_no_zero_division: "py_get x k d \<noteq> Inl ZeroDivisionError"
  by (cases x) (simp_all add: py_get_def)

lemma py_float_no_zero_division: "py_float float_of_str v \<noteq> Inl ZeroDivisionError"
  by (cases v) (auto simp: py_float_def split: option.splits)

subsection \<open>The Binance spot listing computes the specified pairs\<close>

lemma spot_loop_spec:
  "\<forall>i \<in> set items. spec_usdt_symbol i \<Longrightarrow>
   binance_spot_loop items (tr, ntr) =
     Inr (tr @ map (\<lambda>i. [(''symbol'', field i ''baseAsset''), (''pair'', field i ''symbol'')]) (filter spec_trading items),
          ntr @ map (\<lambda>i. [(''symbol'', field i ''baseAsset''), (''pair'', field i ''symbol'')]) (filter (\<lambda>i. \<not> spec_trading i) items))"
proof (induction items arbitrary: tr ntr)
  case Nil
  then show ?case by simp
next
  case (Cons item items)
  from Cons.prems obtain kv b s where item: "item = JObj kv"
      and q: "map_of kv ''quoteAsset'' = Some (JStr ''USDT'')"
      and b: "map_of kv ''baseAsset'' = Some b" and s: "map_of kv ''symbol'' = Some s"
    by (auto simp: spec_usdt_symbol_def split: json.splits)
  from Cons.prems have rest: "\<forall>i \<in> set items. spec_usdt_symbol i" by simp
  show ?case
  proof (cases "spec_trading item")
    case True
    then show ?thesis
      using item q b s Cons.IH [OF rest]
      by (simp add: py_get_def py_getitem_def default_quote_asset_def spec_trading_def field_def)
  next
    case False
    then show ?thesis
      using item q b s Cons.IH [OF rest]
      by (simp add: py_get_def py_getitem_def default_quote_asset_def spec_trading_def field_def)
  qed
qed

lemma binance_process_spot_spec:
  assumes resp: "script w (length (sent w)) = Json data"
    and syms: "py_get data ''symbols'' (JArr []) = Inr (JArr items)"
    and wf: "\<forall>i \<in> set items. spec_usdt_symbol i"
  shows "binance_process_spot w =
           (Inr (active (spec_binance_spot_pairs items), inactive (spec_binance_spot_pairs items)),
            w\<lparr>sent := sent w @ [Get binance_spot_url]\<rparr>)"
proof -
  have "fetch_with_retry binance_spot_url w = (Inr data, w\<lparr>sent := sent w @ [Get binance_spot_url]\<rparr>)"
    using resp by (simp add: fetch_with_retry_def http_request_def retry.simps [of _ _ _ _ w])
  then show ?thesis
    using syms spot_loop_spec [OF wf, of "[]" "[]"]
    by (simp add: binance_process_spot_def binance_process_def binance_fetch_symbols_from_exchange_def
        py_iter_def generate_symbol_updates_with_non_trading_def spec_binance_spot_pairs_def
        spec_trading_pair_def)
qed

subsection \<open>The retrying fetcher\<close>

text \<open>
  C1 (as amended). \<open>_fetch_with_retry\<close> sends at most three requests. It returns the body
  of the first request that succeeds; after a first or second request that fails in any
  way (transport failure, error status or a body that is not JSON) it sleeps
  \<open>max 2 (min (2 ^ (attempt - 1)) 10)\<close> time-units, which is 2 both times, and tries again;
  after a third failure it raises.
\<close>

theorem fetch_with_retry_attempts:
  "(wait_exponential 1 2 10 a = max 2 (min (2 ^ (a - 1)) 10))
 \<and> (script w (length (sent w)) = Json j \<longrightarrow>
      fetch_with_retry url w = (Inr j, w\<lparr>sent := sent w @ [Get url]\<rparr>))
 \<and> (\<not> is_Json (script w (length (sent w))) \<and> script w (length (sent w) + 1) = Json j \<longrightarrow>
      fetch_with_retry url w =
        (Inr j, w\<lparr>sent := sent w @ [Get url, Get url], slept := slept w @ [2]\<rparr>))
 \<and> (\<not> is_Json (script w (length (sent w))) \<and> \<not> is_Json (script w (length (sent w) + 1))
      \<and> script w (length (sent w) + 2) = Json j \<longrightarrow>
      fetch_with_retry url w =
        (Inr j, w\<lparr>sent := sent w @ [Get url, Get url, Get url], slept := slept w @ [2, 2]\<rparr>))
 \<and> (\<not> is_Json (script w (length (sent w))) \<and> \<not> is_Json (script w (length (sent w) + 1))
      \<and> \<not> is_Json (script w (length (sent w) + 2)) \<longrightarrow>
      (\<exists>e. fst (fetch_with_retry url w) = Inl e)
      \<and> snd (fetch_with_retry url w) =
           w\<lparr>sent := sent w @ [Get url, Get url, Get url], slept := slept w @ [2, 2]\<rparr>)"
  (is "?W \<and> ?A \<and> ?B \<and> ?C \<and> ?D")
proof -
  let ?rq = "Get url"
  let ?w1 = "w\<lparr>sent := sent w @ [?rq]\<rparr>"
  let ?w1' = "?w1\<lparr>slept := slept ?w1 @ [wait_exponential 1 2 10 1]\<rparr>"
  let ?w2 = "?w1'\<lparr>sent := sent ?w1' @ [?rq]\<rparr>"
  let ?w2' = "?w2\<lparr>slept := slept ?w2 @ [wait_exponential 1 2 10 2]\<rparr>"
  let ?w3 = "?w2'\<lparr>sent := sent ?w2' @ [?rq]\<rparr>"
  have s1: "script ?w1' (length (sent ?w1')) = script w (length (sent w) + 1)" by simp
  have s2: "script ?w2' (length (sent ?w2')) = script w (length (sent w) + 2)" by simp
  have e2: "?w2 = w\<lparr>sent := sent w @ [Get url, Get url], slept := slept w @ [2]\<rparr>"
    by (simp add: wait_values)
  have e3: "?w3 = w\<lparr>sent := sent w @ [Get url, Get url, Get url], slept := slept w @ [2, 2]\<rparr>"
    by (simp add: wait_values)
  have w: ?W by (simp add: wait_exponential_def)
  have a: ?A
    by (simp add: fetch_with_retry_def retry_success http_request_Json)
  have step1: "fetch_with_retry url w = retry 3 (wait_exponential 1 2 10) (http_request ?rq) 2 ?w1'"
    if "\<not> is_Json (script w (length (sent w)))"
  proof -
    from that obtain e where "http_request ?rq w = (Inl e, ?w1)"
      using http_request_fail by blast
    then show ?thesis
      unfolding fetch_with_retry_def by (rule retry_first)
  qed
  have step2: "retry 3 (wait_exponential 1 2 10) (http_request ?rq) 2 ?w1'
       = retry 3 (wait_exponential 1 2 10) (http_request ?rq) 3 ?w2'"
    if "\<not> is_Json (script w (length (sent w) + 1))"
  proof -
    from that s1 have "\<not> is_Json (script ?w1' (length (sent ?w1')))" by simp
    then obtain e where "http_request ?rq ?w1' = (Inl e, ?w2)"
      using http_request_fail by blast
    then show ?thesis
      by (rule retry_second)
  qed
  have b: ?B
  proof
    assume h: "\<not> is_Json (script w (length (sent w))) \<and> script w (length (sent w) + 1) = Json j"
    with s1 have "http_request ?rq ?w1' = (Inr j, ?w2)"
      using http_request_Json [of ?w1' j ?rq] by simp
    then have "retry 3 (wait_exponential 1 2 10) (http_request ?rq) 2 ?w1' = (Inr j, ?w2)"
      by (rule retry_success)
    with h step1 e2 show "fetch_with_retry url w =
        (Inr j, w\<lparr>sent := sent w @ [Get url, Get url], slept := slept w @ [2]\<rparr>)"
      by simp
  qed
  have c: ?C
  proof
    assume h: "\<not> is_Json (script w (length (sent w))) \<and> \<not> is_Json (script w (length (sent w) + 1))
      \<and> script w (length (sent w) + 2) = Json j"
    with s2 have "http_request ?rq ?w2' = (Inr j, ?w3)"
      using http_request_Json [of ?w2' j ?rq] by simp
    then have "retry 3 (wait_exponential 1 2 10) (http_request ?rq) 3 ?w2' = (Inr j, ?w3)"
      by (rule retry_success)
    with h step1 step2 e3 show "fetch_with_retry url w =
        (Inr j, w\<lparr>sent := sent w @ [Get url, Get url, Get url], slept := slept w @ [2, 2]\<rparr>)"
      by simp
  qed
  have d: ?D
  proof
    assume h: "\<not> is_Json (script w (length (sent w))) \<and> \<not> is_Json (script w (length (sent w) + 1))
      \<and> \<not> is_Json (script w (length (sent w) + 2))"
    with s2 have "\<not> is_Json (script ?w2' (length (sent ?w2')))" by simp
    then obtain e where "http_request ?rq ?w2' = (Inl e, ?w3)"
      using http_request_fail by blast
    then have "retry 3 (wait_exponential 1 2 10) (http_request ?rq) 3 ?w2' = (Inl (RetryError e), ?w3)"
      by (simp add: retry_give_up)
    with h step1 step2 e3 have "fetch_with_retry url w = (Inl (RetryError e),
         w\<lparr>sent := sent w @ [Get url, Get url, Get url], slept := slept w @ [2, 2]\<rparr>)"
      by simp
    then show "(\<exists>e. fst (fetch_with_retry url w) = Inl e)
      \<and> snd (fetch_with_retry url w) =
           w\<lparr>sent := sent w @ [Get url, Get url, Get url], slept := slept w @ [2, 2]\<rparr>"
      by simp
  qed
  from w a b c d show ?thesis by blast
qed

theorem fetch_with_retry_attempts_witness:
  "script (fresh_world script_exchange_info) (length (sent (fresh_world script_exchange_info)))
      = Json example_exchange_info
   \<and> fetch_with_retry ''u'' (fresh_world script_exchange_info)
       = (Inr example_exchange_info, (fresh_world script_exchange_info)\<lparr>sent := [Get ''u'']\<rparr>)
   \<and> \<not> is_Json (script (fresh_world script_bad_json_then_ok) 0)
   \<and> script (fresh_world script_bad_json_then_ok) 1 = Json JNull
   \<and> fetch_with_retry ''u'' (fresh_world script_bad_json_then_ok)
       = (Inr JNull, (fresh_world script_bad_json_then_ok)\<lparr>sent := [Get ''u'', Get ''u''], slept := [2]\<rparr>)
   \<and> \<not> is_Json (script (fresh_world script_two_failures_then_ok) 0)
   \<and> \<not> is_Json (script (fresh_world script_two_failures_then_ok) 1)
   \<and> script (fresh_world script_two_failures_then_ok) 2 = Json JNull
   \<and> fetch_with_retry ''u'' (fresh_world script_two_failures_then_ok)
       = (Inr JNull, (fresh_world script_two_failures_then_ok)
                       \<lparr>sent := [Get ''u'', Get ''u'', Get ''u''], slept := [2, 2]\<rparr>)
   \<and> \<not> is_Json (script (fresh_world script_always_timeout) 0)
   \<and> \<not> is_Json (script (fresh_world script_always_timeout) 1)
   \<and> \<not> is_Json (script (fresh_world script_always_timeout) 2)
   \<and> (\<exists>e. fst (fetch_with_retry ''u'' (fresh_world script_always_timeout)) = Inl e)
   \<and> snd (fetch_with_retry ''u'' (fresh_world script_always_timeout))
       = (fresh_world script_always_timeout)\<lparr>sent := [Get ''u'', Get ''u'', Get ''u''], slept := [2, 2]\<rparr>"
proof -
  let ?wa = "fresh_world script_exchange_info"
  let ?wb = "fresh_world script_bad_json_then_ok"
  let ?wc = "fresh_world script_two_failures_then_ok"
  let ?wd = "fresh_world script_always_timeout"
  have len: "length (sent (fresh_world s)) = 0" "sent (fresh_world s) = []"
    "slept (fresh_world s) = []" "script (fresh_world s) = s" for s
    by (simp_all add: fresh_world_def)
  have a: "script ?wa (length (sent ?wa)) = Json example_exchange_info"
    by (simp add: len script_exchange_info_def)
  have b: "\<not> is_Json (script ?wb 0)" "script ?wb 1 = Json JNull"
    by (simp_all add: len script_bad_json_then_ok_def)
  have b': "\<not> is_Json (script ?wb (length (sent ?wb)))
            \<and> script ?wb (length (sent ?wb) + 1) = Json JNull"
    by (simp add: len script_bad_json_then_ok_def)
  have c: "\<not> is_Json (script ?wc 0)" "\<not> is_Json (script ?wc 1)" "script ?wc 2 = Json JNull"
    by (simp_all add: len script_two_failures_then_ok_def)
  have c': "\<not> is_Json (script ?wc (length (sent ?wc)))
            \<and> \<not> is_Json (script ?wc (length (sent ?wc) + 1))
            \<and> script ?wc (length (sent ?wc) + 2) = Json JNull"
    by (simp add: len script_two_failures_then_ok_def)
  have d: "\<not> is_Json (script ?wd 0)" "\<not> is_Json (script ?wd 1)" "\<not> is_Json (script ?wd 2)"
    by (simp_all add: len script_always_timeout_def)
  have d': "\<not> is_Json (script ?wd (length (sent ?wd)))
            \<and> \<not> is_Json (script ?wd (length (sent ?wd) + 1))
            \<and> \<not> is_Json (script ?wd (length (sent ?wd) + 2))"
    by (simp add: len script_always_timeout_def)
  from fetch_with_retry_attempts [of 1 ?wa example_exchange_info "''u''"] a
  have "fetch_with_retry ''u'' ?wa
          = (Inr example_exchange_info, ?wa\<lparr>sent := sent ?wa @ [Get ''u'']\<rparr>)"
    by blast
  then have ra: "fetch_with_retry ''u'' ?wa = (Inr example_exchange_info, ?wa\<lparr>sent := [Get ''u'']\<rparr>)"
    by (simp add: len)
  from fetch_with_retry_attempts [of 1 ?wb JNull "''u''"] b'
  have "fetch_with_retry ''u'' ?wb
          = (Inr JNull, ?wb\<lparr>sent := sent ?wb @ [Get ''u'', Get ''u''], slept := slept ?wb @ [2]\<rparr>)"
    by blast
  then have rb: "fetch_with_retry ''u'' ?wb
              = (Inr JNull, ?wb\<lparr>sent := [Get ''u'', Get ''u''], slept := [2]\<rparr>)"
    by (simp add: len)
  from fetch_with_retry_attempts [of 1 ?wc JNull "''u''"] c'
  have "fetch_with_retry ''u'' ?wc
          = (Inr JNull, ?wc\<lparr>sent := sent ?wc @ [Get ''u'', Get ''u'', Get ''u''],
                             slept := slept ?wc @ [2, 2]\<rparr>)"
    by blast
  then have rc: "fetch_with_retry ''u'' ?wc
              = (Inr JNull, ?wc\<lparr>sent := [Get ''u'', Get ''u'', Get ''u''], slept := [2, 2]\<rparr>)"
    by (simp add: len)
  from fetch_with_retry_attempts [of 1 ?wd JNull "''u''"] d'
  have "(\<exists>e. fst (fetch_with_retry ''u'' ?wd) = Inl e)
      \<and> snd (fetch_with_retry ''u'' ?wd)
          = ?wd\<lparr>sent := sent ?wd @ [Get ''u'', Get ''u'', Get ''u''], slept := slept ?wd @ [2, 2]\<rparr>"
    by blast
  then have rd: "(\<exists>e. fst (fetch_with_retry ''u'' ?wd) = Inl e)
      \<and> snd (fetch_with_retry ''u'' ?wd)
          = ?wd\<lparr>sent := [Get ''u'', Get ''u'', Get ''u''], slept := [2, 2]\<rparr>"
    by (simp add: len)
  from a b c d ra rb rc rd show ?thesis by blast
qed

text \<open>
  C1 as stated fails. A body that is not JSON on the first attempt is followed by a second
  request, whose result is returned. When every attempt times out, the two waits are 2 and
  2, not 2 and 4, and what is raised is \<open>RetryError\<close> around the transport error, not the
  transport error.
\<close>

theorem fetch_with_retry_counterexample:
  "fst (fetch_with_retry ''u'' (fresh_world script_bad_json_then_ok)) = Inr JNull
   \<and> sent (snd (fetch_with_retry ''u'' (fresh_world script_bad_json_then_ok))) = [Get ''u'', Get ''u'']
   \<and> slept (snd (fetch_with_retry ''u'' (fresh_world script_always_timeout))) = [2, 2]
   \<and> slept (snd (fetch_with_retry ''u'' (fresh_world script_always_timeout))) \<noteq> [2, 4]
   \<and> fst (fetch_with_retry ''u'' (fresh_world script_always_timeout))
        = Inl (RetryError (TransportError ''timeout''))
   \<and> fst (fetch_with_retry ''u'' (fresh_world script_always_timeout))
        \<noteq> Inl (TransportError ''timeout'')"
  by code_simp

subsection \<open>Pair listing and the pair cache\<close>

text \<open>
  C2. Take a supported market type whose processing method exists, an instance with no
  fresh entry for it, and a live fetch that succeeds. The first call with \<open>use_cache\<close>
  returns the fetched result and stores it with the timestamp read after the fetch. A
  second call at a time \<open>t2\<close> with \<open>t2 - timestamp < cache_ttl\<close> returns the same result
  and leaves instance and world as they were, so the two calls together caused the one
  live fetch. A call at a time \<open>t3\<close> for which \<open>t3 - timestamp < cache_ttl\<close> is false runs
  the processing method again and overwrites the entry, without adding a second one.
\<close>

theorem cache_ttl_window:
  fixes self :: adapter_instance
  defines "r \<equiv> \<lambda>(act, inact). \<lparr>active = act, inactive = inact\<rparr>"
  defines "store \<equiv> \<lambda>m now_store res (self :: adapter_instance).
                     self\<lparr>cache := AList.update m (now_store, r res) (cache self)\<rparr>"
  assumes sup: "m \<in> set (get_supported_markets ad)"
    and meth: "process_method ad m = Some proc"
    and miss: "\<forall>ts d. map_of (cache self) m = Some (ts, d) \<longrightarrow> \<not> (t1 - ts < cache_ttl self)"
    and live: "proc w = (Inr res, w1)"
  shows "fetch_all_pairs ad m True t1 s1 self w = (Inr (r res), store m s1 res self, w1)
       \<and> (t2 - s1 < cache_ttl self \<longrightarrow>
            fetch_all_pairs ad m True t2 s2 (store m s1 res self) w1
              = (Inr (r res), store m s1 res self, w1))
       \<and> (\<not> (t3 - s1 < cache_ttl self) \<and> proc w1 = (Inr res', w2) \<longrightarrow>
            fetch_all_pairs ad m True t3 s3 (store m s1 res self) w1
              = (Inr (r res'), store m s3 res' (store m s1 res self), w2)
            \<and> map_of (cache (store m s3 res' (store m s1 res self))) m = Some (s3, r res')
            \<and> map fst (cache (store m s3 res' (store m s1 res self)))
                = map fst (cache (store m s1 res self)))"
  (is "?A \<and> ?B \<and> ?C")
proof -
  obtain act inact where res: "res = (act, inact)" by (cases res)
  obtain act' inact' where res': "res' = (act', inact')" by (cases res')
  have look0: "(case map_of (cache self) m of
                   Some (timestamp, cached_data) \<Rightarrow>
                     if t1 - timestamp < cache_ttl self then Some cached_data else None
                 | None \<Rightarrow> None) = None"
    using miss by (auto split: option.splits)
  have a: ?A
    using sup meth live by (simp add: fetch_all_pairs_def look0 Let_def r_def store_def res)
  have look1: "map_of (cache (store m s1 res self)) m = Some (s1, r res)"
    by (simp add: map_of_update_same store_def)
  have ttl: "cache_ttl (store m s1 res self) = cache_ttl self"
    by (simp add: store_def)
  have b: ?B
    using sup by (simp add: fetch_all_pairs_def look1 ttl)
  have c: ?C
  proof (intro impI conjI)
    assume h: "\<not> (t3 - s1 < cache_ttl self) \<and> proc w1 = (Inr res', w2)"
    then show "fetch_all_pairs ad m True t3 s3 (store m s1 res self) w1
              = (Inr (r res'), store m s3 res' (store m s1 res self), w2)"
      using sup meth
      by (simp add: fetch_all_pairs_def look1 ttl Let_def res') (simp add: r_def store_def)
    show "map_of (cache (store m s3 res' (store m s1 res self))) m = Some (s3, r res')"
      by (simp add: map_of_update_same store_def)
    show "map fst (cache (store m s3 res' (store m s1 res self)))
            = map fst (cache (store m s1 res self))"
      by (simp add: store_def update_keys)
  qed
  from a b c show ?thesis by blast
qed

theorem cache_ttl_window_witness:
  "''spot'' \<in> set (get_supported_markets binance)
   \<and> process_method binance ''spot'' = Some binance_process_spot
   \<and> map_of (cache (new_instance BinanceExchange None)) ''spot'' = None
   \<and> fst example_first_call = Inr (spec_binance_spot_pairs example_symbols)
   \<and> sent (snd (snd example_first_call)) = [Get binance_spot_url]
   \<and> (1030 :: real) - 1001 < cache_ttl (new_instance BinanceExchange None)
   \<and> fst example_second_call = fst example_first_call
   \<and> sent (snd (snd example_second_call)) = [Get binance_spot_url]
   \<and> \<not> ((1061 :: real) - 1001 < cache_ttl (new_instance BinanceExchange None))
   \<and> sent (snd (snd example_third_call)) = [Get binance_spot_url, Get binance_spot_url]
   \<and> cache (fst (snd example_third_call)) = [(''spot'', 1062, spec_binance_spot_pairs example_symbols)]"
proof -
  let ?self = "new_instance BinanceExchange None"
  let ?w = "fresh_world script_exchange_info"
  let ?w1 = "?w\<lparr>sent := sent ?w @ [Get binance_spot_url]\<rparr>"
  let ?w2 = "?w1\<lparr>sent := sent ?w1 @ [Get binance_spot_url]\<rparr>"
  let ?res = "(active (spec_binance_spot_pairs example_symbols),
               inactive (spec_binance_spot_pairs example_symbols))"
  let ?self1 = "?self\<lparr>cache := AList.update ''spot''
                   (1001, case ?res of (act, inact) \<Rightarrow> \<lparr>active = act, inactive = inact\<rparr>) (cache ?self)\<rparr>"
  have h1: "''spot'' \<in> set (get_supported_markets binance)"
    by (simp add: binance_def)
  have h2: "process_method binance ''spot'' = Some binance_process_spot"
    by (simp add: binance_def)
  have h3: "map_of (cache ?self) ''spot'' = None"
    by (simp add: new_instance_def)
  have h3': "\<forall>ts d. map_of (cache ?self) ''spot'' = Some (ts, d) \<longrightarrow> \<not> (1000 - ts < cache_ttl ?self)"
    by (simp add: new_instance_def)
  have syms: "py_get example_exchange_info ''symbols'' (JArr []) = Inr (JArr example_symbols)"
    by (simp add: py_get_def example_exchange_info_def)
  have wf: "\<forall>i \<in> set example_symbols. spec_usdt_symbol i"
    by (simp add: example_symbols_def example_symbol_def spec_usdt_symbol_def)
  have h4: "binance_process_spot ?w = (Inr ?res, ?w1)"
    by (rule binance_process_spot_spec [OF _ syms wf]) (simp add: fresh_world_def script_exchange_info_def)
  have h5: "binance_process_spot ?w1 = (Inr ?res, ?w2)"
    by (rule binance_process_spot_spec [OF _ syms wf]) (simp add: fresh_world_def script_exchange_info_def)
  have h6: "(1030 :: real) - 1001 < cache_ttl ?self"
    by (simp add: new_instance_def)
  have h7: "\<not> ((1061 :: real) - 1001 < cache_ttl ?self)"
    by (simp add: new_instance_def)
  note T = cache_ttl_window [where m = "''spot''" and ad = binance and proc = binance_process_spot
      and self = ?self and w = ?w and ?w1.0 = ?w1 and ?w2.0 = ?w2 and res = ?res and res' = ?res
      and ?t1.0 = 1000 and ?s1.0 = 1001 and ?t2.0 = 1030 and ?s2.0 = 1031
      and ?t3.0 = 1061 and ?s3.0 = 1062, OF h1 h2 h3' h4]
  have r: "(case ?res of (act, inact) \<Rightarrow> \<lparr>active = act, inactive = inact\<rparr>)
             = spec_binance_spot_pairs example_symbols"
    by simp
  from T have c1: "example_first_call = (Inr (spec_binance_spot_pairs example_symbols), ?self1, ?w1)"
    unfolding example_first_call_def r by blast
  from T h6 have c2: "example_second_call = (Inr (spec_binance_spot_pairs example_symbols), ?self1, ?w1)"
    unfolding example_second_call_def c1 r by simp
  from T h7 h5 have c3: "fetch_all_pairs binance ''spot'' True 1061 1062 ?self1 ?w1
       = (Inr (spec_binance_spot_pairs example_symbols),
          ?self1\<lparr>cache := AList.update ''spot'' (1062, spec_binance_spot_pairs example_symbols)
                              (cache ?self1)\<rparr>, ?w2)"
    unfolding r by blast
  then have c3': "example_third_call = (Inr (spec_binance_spot_pairs example_symbols),
          ?self1\<lparr>cache := AList.update ''spot'' (1062, spec_binance_spot_pairs example_symbols)
                              (cache ?self1)\<rparr>, ?w2)"
    unfolding example_third_call_def c2 by simp
  have s1: "sent (snd (snd example_first_call)) = [Get binance_spot_url]"
    unfolding c1 by (simp add: fresh_world_def)
  have s2: "sent (snd (snd example_second_call)) = [Get binance_spot_url]"
    unfolding c2 by (simp add: fresh_world_def)
  have s3: "sent (snd (snd example_third_call)) = [Get binance_spot_url, Get binance_spot_url]"
    unfolding c3' by (simp add: fresh_world_def)
  have s4: "cache (fst (snd example_third_call)) = [(''spot'', 1062, spec_binance_spot_pairs example_symbols)]"
    unfolding c3' by (simp add: new_instance_def)
  have s5: "fst example_first_call = Inr (spec_binance_spot_pairs example_symbols)"
    unfolding c1 by simp
  have s6: "fst example_second_call = fst example_first_call"
    unfolding c1 c2 by simp
  from h1 h2 h3 h6 h7 s1 s2 s3 s4 s5 s6 show ?thesis by blast
qed

text \<open>
  C3. For a market type that is not in \<open>get_supported_markets()\<close>, \<open>fetch_all_pairs\<close> raises
  \<open>ValueError\<close>, the message contains the \<open>repr\<close> of every supported market type, and the
  instance and the world, with its record of requests sent, are unchanged.
\<close>

theorem unsupported_market_type:
  assumes "m \<notin> set (get_supported_markets ad)"
  shows "fetch_all_pairs ad m use_cache now_check now_store self w
           = (Inl (ValueError (''Unsupported market type '' @ quoted m @ ''. Supported markets: ''
                     @ py_repr_list (get_supported_markets ad))), self, w)
       \<and> (\<forall>s \<in> set (get_supported_markets ad).
             sublist (py_repr_str s) (''Unsupported market type '' @ quoted m @ ''. Supported markets: ''
                     @ py_repr_list (get_supported_markets ad)))"
proof (intro conjI ballI)
  show "fetch_all_pairs ad m use_cache now_check now_store self w
           = (Inl (ValueError (''Unsupported market type '' @ quoted m @ ''. Supported markets: ''
                     @ py_repr_list (get_supported_markets ad))), self, w)"
    using assms by (simp add: fetch_all_pairs_def)
next
  fix s assume "s \<in> set (get_supported_markets ad)"
  then show "sublist (py_repr_str s) (''Unsupported market type '' @ quoted m @ ''. Supported markets: ''
                     @ py_repr_list (get_supported_markets ad))"
    using sublist_py_repr_list [of s "get_supported_markets ad"
             "''Unsupported market type '' @ quoted m @ ''. Supported markets: ''"]
    by simp
qed

theorem unsupported_market_type_witness:
  "''margin'' \<notin> set (get_supported_markets binance)
   \<and> ''futures'' \<in> set (get_supported_markets binance)
   \<and> fst (fetch_all_pairs binance ''margin'' True 0 0 (new_instance BinanceExchange None)
            (fresh_world script_exchange_info))
       = Inl (ValueError (''Unsupported market type '' @ quoted ''margin'' @ ''. Supported markets: [''
                @ quoted ''spot'' @ '', '' @ quoted ''futures'' @ '']''))
   \<and> sent (snd (snd (fetch_all_pairs binance ''margin'' True 0 0 (new_instance BinanceExchange None)
            (fresh_world script_exchange_info)))) = []
   \<and> sublist (quoted ''futures'')
        (''Unsupported market type '' @ quoted ''margin'' @ ''. Supported markets: [''
                @ quoted ''spot'' @ '', '' @ quoted ''futures'' @ '']'')"
proof -
  let ?call = "fetch_all_pairs binance ''margin'' True 0 0 (new_instance BinanceExchange None)
            (fresh_world script_exchange_info)"
  have h: "''margin'' \<notin> set (get_supported_markets binance)"
    by (simp add: binance_def)
  have h': "''futures'' \<in> set (get_supported_markets binance)"
    by (simp add: binance_def)
  have l: "py_repr_list (get_supported_markets binance)
             = ''['' @ quoted ''spot'' @ '', '' @ quoted ''futures'' @ '']''"
    by code_simp
  have q: "py_repr_str ''futures'' = quoted ''futures''"
    by code_simp
  note T = unsupported_market_type [OF h, of True 0 0 "new_instance BinanceExchange None"
      "fresh_world script_exchange_info"]
  from T have "?call = (Inl (ValueError (''Unsupported market type '' @ quoted ''margin''
       @ ''. Supported markets: '' @ py_repr_list (get_supported_markets binance))),
       new_instance BinanceExchange None, fresh_world script_exchange_info)"
    by blast
  then have c1: "fst ?call = Inl (ValueError (''Unsupported market type '' @ quoted ''margin''
       @ ''. Supported markets: ['' @ quoted ''spot'' @ '', '' @ quoted ''futures'' @ '']''))"
    and c2: "sent (snd (snd ?call)) = []"
    by (simp_all add: l fresh_world_def)
  from T h' have "sublist (py_repr_str ''futures'') (''Unsupported market type '' @ quoted ''margin''
       @ ''. Supported markets: '' @ py_repr_list (get_supported_markets binance))"
    by blast
  then have c3: "sublist (quoted ''futures'')
        (''Unsupported market type '' @ quoted ''margin'' @ ''. Supported markets: [''
                @ quoted ''spot'' @ '', '' @ quoted ''futures'' @ '']'')"
    by (simp add: l q)
  from h h' c1 c2 c3 show ?thesis by blast
qed

text \<open>
  C10. With \<open>use_cache=False\<close> the instance, and with it the cache, is the same after the
  call as before, whatever the call returns. For a supported market type that has a
  processing routine the call is the live fetch, whatever the cache holds: also with a fresh entry for
  that market type.
\<close>

theorem no_cache_frame:
  "fst (snd (fetch_all_pairs ad m False now_check now_store self w)) = self
   \<and> (m \<in> set (get_supported_markets ad) \<and> process_method ad m = Some proc \<longrightarrow>
        fetch_all_pairs ad m False now_check now_store self w
          = (case proc w of
               (Inl e, w') \<Rightarrow> (Inl e, self, w')
             | (Inr (act, inact), w') \<Rightarrow> (Inr \<lparr>active = act, inactive = inact\<rparr>, self, w')))"
  by (auto simp: fetch_all_pairs_def Let_def split: option.splits prod.splits sum.splits)

theorem no_cache_frame_witness:
  "''spot'' \<in> set (get_supported_markets binance)
   \<and> process_method binance ''spot'' = Some binance_process_spot
   \<and> map_of (cache example_cached_instance) ''spot'' = Some (1000, \<lparr>active = [], inactive = []\<rparr>)
   \<and> (1001 :: real) - 1000 < cache_ttl example_cached_instance
   \<and> fst (fetch_all_pairs binance ''spot'' True 1001 1002 example_cached_instance
             (fresh_world script_exchange_info)) = Inr \<lparr>active = [], inactive = []\<rparr>
   \<and> fst (fetch_all_pairs binance ''spot'' False 1001 1002 example_cached_instance
             (fresh_world script_exchange_info)) = Inr (spec_binance_spot_pairs example_symbols)
   \<and> sent (snd (snd (fetch_all_pairs binance ''spot'' False 1001 1002 example_cached_instance
             (fresh_world script_exchange_info)))) = [Get binance_spot_url]
   \<and> cache (fst (snd (fetch_all_pairs binance ''spot'' False 1001 1002 example_cached_instance
             (fresh_world script_exchange_info)))) = cache example_cached_instance"
proof -
  let ?w = "fresh_world script_exchange_info"
  let ?w1 = "?w\<lparr>sent := sent ?w @ [Get binance_spot_url]\<rparr>"
  let ?call = "fetch_all_pairs binance ''spot'' False 1001 1002 example_cached_instance ?w"
  have h1: "''spot'' \<in> set (get_supported_markets binance)"
    by (simp add: binance_def)
  have h2: "process_method binance ''spot'' = Some binance_process_spot"
    by (simp add: binance_def)
  have h3: "map_of (cache example_cached_instance) ''spot'' = Some (1000, \<lparr>active = [], inactive = []\<rparr>)"
    by (simp add: example_cached_instance_def)
  have h4: "(1001 :: real) - 1000 < cache_ttl example_cached_instance"
    by (simp add: example_cached_instance_def new_instance_def)
  have cached: "fst (fetch_all_pairs binance ''spot'' True 1001 1002 example_cached_instance ?w)
                  = Inr \<lparr>active = [], inactive = []\<rparr>"
    using h1 by (simp add: fetch_all_pairs_def example_cached_instance_def new_instance_def)
  have syms: "py_get example_exchange_info ''symbols'' (JArr []) = Inr (JArr example_symbols)"
    by (simp add: py_get_def example_exchange_info_def)
  have wf: "\<forall>i \<in> set example_symbols. spec_usdt_symbol i"
    by (simp add: example_symbols_def example_symbol_def spec_usdt_symbol_def)
  have live: "binance_process_spot ?w
      = (Inr (active (spec_binance_spot_pairs example_symbols),
              inactive (spec_binance_spot_pairs example_symbols)), ?w1)"
    by (rule binance_process_spot_spec [OF _ syms wf]) (simp add: fresh_world_def script_exchange_info_def)
  note T = no_cache_frame [of binance "''spot''" 1001 1002 example_cached_instance ?w binance_process_spot]
  from T h1 h2 live have c: "?call = (Inr (spec_binance_spot_pairs example_symbols),
       example_cached_instance, ?w1)"
    by simp
  have c1: "fst ?call = Inr (spec_binance_spot_pairs example_symbols)"
    unfolding c by simp
  have c2: "sent (snd (snd ?call)) = [Get binance_spot_url]"
    unfolding c by (simp add: fresh_world_def)
  have c3: "cache (fst (snd ?call)) = cache example_cached_instance"
    unfolding c by simp
  from h1 h2 h3 h4 cached c1 c2 c3 show ?thesis by blast
qed

text \<open>
  C9. When the first request for the spot exchange information succeeds, every listed
  symbol is quoted in USDT, and the instance has no cache entry for spot,
  \<open>fetch_all_pairs("spot")\<close> returns as \<open>active\<close> the symbols whose status is TRADING, in the
  order of the response, each with \<open>is_active\<close> true and \<open>exchange\<close> "binance-spot", and as
  \<open>inactive\<close> all the others, each with \<open>is_active\<close> false. With two TRADING symbols and one
  BREAK symbol that is two active entries and one inactive entry.
\<close>

theorem binance_spot_pairs:
  assumes resp: "script w (length (sent w)) = Json data"
    and syms: "py_get data ''symbols'' (JArr []) = Inr (JArr items)"
    and wf: "\<forall>i \<in> set items. spec_usdt_symbol i"
    and nocache: "map_of (cache self) ''spot'' = None"
  shows "fst (fetch_all_pairs binance ''spot'' True now_check now_store self w)
           = Inr (spec_binance_spot_pairs items)
       \<and> length (active (spec_binance_spot_pairs items)) = length (filter spec_trading items)
       \<and> length (inactive (spec_binance_spot_pairs items))
           = length items - length (filter spec_trading items)
       \<and> (\<forall>p \<in> set (active (spec_binance_spot_pairs items)).
             map_of p ''is_active'' = Some (JBool True)
             \<and> map_of p ''exchange'' = Some (JStr ''binance-spot''))
       \<and> (\<forall>p \<in> set (inactive (spec_binance_spot_pairs items)).
             map_of p ''is_active'' = Some (JBool False)
             \<and> map_of p ''exchange'' = Some (JStr ''binance-spot''))"
  (is "?A \<and> ?B \<and> ?C \<and> ?D \<and> ?E")
proof -
  have sup: "''spot'' \<in> set (get_supported_markets binance)"
    and meth: "process_method binance ''spot'' = Some binance_process_spot"
    by (simp_all add: binance_def)
  have a: ?A
    using sup meth nocache binance_process_spot_spec [OF resp syms wf]
    by (simp add: fetch_all_pairs_def Let_def)
  have b: ?B
    by (simp add: spec_binance_spot_pairs_def)
  have "length (filter (\<lambda>i. \<not> spec_trading i) items) + length (filter spec_trading items) = length items"
    using sum_length_filter_compl [of spec_trading items] by simp
  then have c: ?C
    by (simp add: spec_binance_spot_pairs_def)
  have d: ?D
    by (auto simp: spec_binance_spot_pairs_def spec_trading_pair_def)
  have e: ?E
    by (auto simp: spec_binance_spot_pairs_def spec_trading_pair_def)
  from a b c d e show ?thesis by blast
qed

theorem binance_spot_pairs_witness:
  "script (fresh_world script_exchange_info) (length (sent (fresh_world script_exchange_info)))
      = Json example_exchange_info
   \<and> py_get example_exchange_info ''symbols'' (JArr []) = Inr (JArr example_symbols)
   \<and> list_all spec_usdt_symbol example_symbols
   \<and> map_of (cache (new_instance BinanceExchange None)) ''spot'' = None
   \<and> length example_symbols = 3 \<and> length (filter spec_trading example_symbols) = 2
   \<and> fst (fetch_all_pairs binance ''spot'' True 1000 1001 (new_instance BinanceExchange None)
            (fresh_world script_exchange_info))
       = Inr \<lparr>active =
                [[(''symbol'', JStr ''BTC''), (''pair'', JStr ''BTCUSDT''),
                  (''exchange'', JStr ''binance-spot''), (''is_active'', JBool True)],
                 [(''symbol'', JStr ''ETH''), (''pair'', JStr ''ETHUSDT''),
                  (''exchange'', JStr ''binance-spot''), (''is_active'', JBool True)]],
              inactive =
                [[(''symbol'', JStr ''HIFI''), (''pair'', JStr ''HIFIUSDT''),
                  (''exchange'', JStr ''binance-spot''), (''is_active'', JBool False)]]\<rparr>"
proof -
  let ?w = "fresh_world script_exchange_info"
  have h1: "script ?w (length (sent ?w)) = Json example_exchange_info"
    by (simp add: fresh_world_def script_exchange_info_def)
  have h2: "py_get example_exchange_info ''symbols'' (JArr []) = Inr (JArr example_symbols)"
    by (simp add: py_get_def example_exchange_info_def)
  have h3: "\<forall>i \<in> set example_symbols. spec_usdt_symbol i"
    by (simp add: example_symbols_def example_symbol_def spec_usdt_symbol_def)
  have h4: "map_of (cache (new_instance BinanceExchange None)) ''spot'' = None"
    by (simp add: new_instance_def)
  have n: "length example_symbols = 3 \<and> length (filter spec_trading example_symbols) = 2"
    by code_simp
  have v: "spec_binance_spot_pairs example_symbols
      = \<lparr>active =
                [[(''symbol'', JStr ''BTC''), (''pair'', JStr ''BTCUSDT''),
                  (''exchange'', JStr ''binance-spot''), (''is_active'', JBool True)],
                 [(''symbol'', JStr ''ETH''), (''pair'', JStr ''ETHUSDT''),
                  (''exchange'', JStr ''binance-spot''), (''is_active'', JBool True)]],
              inactive =
                [[(''symbol'', JStr ''HIFI''), (''pair'', JStr ''HIFIUSDT''),
                  (''exchange'', JStr ''binance-spot''), (''is_active'', JBool False)]]\<rparr>"
    by code_simp
  from binance_spot_pairs [OF h1 h2 h3 h4, of 1000 1001]
  have "fst (fetch_all_pairs binance ''spot'' True 1000 1001 (new_instance BinanceExchange None) ?w)
          = Inr (spec_binance_spot_pairs example_symbols)"
    by blast
  with h1 h2 h3 h4 n v show ?thesis by (simp add: list_all_iff)
qed

subsection \<open>Klines of Binance\<close>

text \<open>
  C5. \<open>BinanceExchange.fetch_klines\<close> with a limit above the cap of the market, 1000 for
  spot and 1500 for any other market string, raises \<open>ValueError\<close> and sends no request.
  With a supported interval and a limit within the cap of spot or futures it goes on to
  the network: its first request is the klines URL, carrying the limit as given. So, with
  interval 1h, limit 1001 and limit 1500 raise for spot, limit 1000 passes for spot and
  limit 1500 passes for futures.
\<close>

theorem binance_klines_limit_cap:
  "(limit > (if market = ''spot'' then 1000 else 1500) \<longrightarrow>
      (\<exists>msg. binance_fetch_klines symbol interval market st en limit tz w
               = (Inl (ValueError msg), w)))
 \<and> (interval \<in> set binance_valid_intervals
      \<and> (market = ''spot'' \<and> limit \<le> 1000 \<or> market = ''futures'' \<and> limit \<le> 1500) \<longrightarrow>
      prefix (sent w @ [Get (binance_klines_url symbol interval market st en limit tz)])
        (sent (snd (binance_fetch_klines symbol interval market st en limit tz w))))
 \<and> binance_fetch_klines symbol ''1h'' ''spot'' st en 1001 tz w
      = (Inl (ValueError ''Limit cannot exceed 1000 for spot market''), w)
 \<and> binance_fetch_klines symbol ''1h'' ''spot'' st en 1500 tz w
      = (Inl (ValueError ''Limit cannot exceed 1000 for spot market''), w)
 \<and> prefix (sent w @ [Get (binance_klines_url symbol ''1h'' ''spot'' st en 1000 tz)])
      (sent (snd (binance_fetch_klines symbol ''1h'' ''spot'' st en 1000 tz w)))
 \<and> prefix (sent w @ [Get (binance_klines_url symbol ''1h'' ''futures'' st en 1500 tz)])
      (sent (snd (binance_fetch_klines symbol ''1h'' ''futures'' st en 1500 tz w)))"
  (is "?A \<and> ?B \<and> ?C \<and> ?D \<and> ?E \<and> ?F")
proof -
  have a: ?A
    by (simp add: binance_fetch_klines_def)
  have pass: "prefix (sent w @ [Get (binance_klines_url symbol interval market st en limit tz)])
        (sent (snd (binance_fetch_klines symbol interval market st en limit tz w)))"
    if "interval \<in> set binance_valid_intervals"
      and "market = ''spot'' \<and> limit \<le> 1000 \<or> market = ''futures'' \<and> limit \<le> 1500"
    for interval market limit
  proof -
    let ?url = "binance_klines_url symbol interval market st en limit tz"
    have "snd (binance_fetch_klines symbol interval market st en limit tz w)
            = snd (fetch_with_retry ?url w)"
      using that
      by (auto simp: binance_fetch_klines_def split: prod.splits sum.splits)
    then show ?thesis
      by (simp add: fetch_with_retry_sent)
  qed
  have b: ?B
    using pass by blast
  have s: "str_int 1000 = ''1000''"
    by code_simp
  have v: "''1h'' \<in> set binance_valid_intervals"
    by (simp add: binance_valid_intervals_def)
  have c: ?C
    using v by (simp add: binance_fetch_klines_def s)
  have d: ?D
    using v by (simp add: binance_fetch_klines_def s)
  have e: ?E
    using v by (intro pass) simp_all
  have f: ?F
    using v by (intro pass) simp_all
  from a b c d e f show ?thesis by blast
qed

theorem binance_klines_limit_cap_witness:
  "(1001 :: int) > (if ''spot'' = ''spot'' then 1000 else 1500)
   \<and> (\<exists>msg. binance_fetch_klines ''BTCUSDT'' ''1h'' ''spot'' None None 1001 ''0''
               (fresh_world script_always_timeout)
             = (Inl (ValueError msg), fresh_world script_always_timeout))
   \<and> sent (fresh_world script_always_timeout) = []
   \<and> ''1h'' \<in> set binance_valid_intervals
   \<and> (1500 :: int) \<le> 1500
   \<and> prefix [Get ''https://fapi.binance.com/fapi/v1/klines?symbol=BTCUSDT&interval=1h&limit=1500'']
        (sent (snd (binance_fetch_klines ''BTCUSDT'' ''1h'' ''futures'' None None 1500 ''0''
                      (fresh_world script_always_timeout))))"
proof -
  let ?w = "fresh_world script_always_timeout"
  have h1: "(1001 :: int) > (if ''spot'' = ''spot'' then 1000 else 1500)"
    by simp
  have h2: "''1h'' \<in> set binance_valid_intervals"
    by (simp add: binance_valid_intervals_def)
  have h3: "''futures'' = ''spot'' \<and> (1500 :: int) \<le> 1000 \<or> ''futures'' = ''futures'' \<and> (1500 :: int) \<le> 1500"
    by simp
  have u: "binance_klines_url ''BTCUSDT'' ''1h'' ''futures'' None None 1500 ''0''
             = ''https://fapi.binance.com/fapi/v1/klines?symbol=BTCUSDT&interval=1h&limit=1500''"
    by code_simp
  have e: "sent ?w = []"
    by (simp add: fresh_world_def)
  from binance_klines_limit_cap [where limit = 1001 and market = "''spot''" and symbol = "''BTCUSDT''"
      and interval = "''1h''" and st = None and en = None and tz = "''0''" and w = ?w] h1
  have c1: "\<exists>msg. binance_fetch_klines ''BTCUSDT'' ''1h'' ''spot'' None None 1001 ''0'' ?w
                  = (Inl (ValueError msg), ?w)"
    by blast
  from binance_klines_limit_cap [where limit = 1500 and market = "''futures''" and symbol = "''BTCUSDT''"
      and interval = "''1h''" and st = None and en = None and tz = "''0''" and w = ?w] h2 h3
  have "prefix (sent ?w @ [Get (binance_klines_url ''BTCUSDT'' ''1h'' ''futures'' None None 1500 ''0'')])
        (sent (snd (binance_fetch_klines ''BTCUSDT'' ''1h'' ''futures'' None None 1500 ''0'' ?w)))"
    by blast
  then have c2: "prefix [Get ''https://fapi.binance.com/fapi/v1/klines?symbol=BTCUSDT&interval=1h&limit=1500'']
        (sent (snd (binance_fetch_klines ''BTCUSDT'' ''1h'' ''futures'' None None 1500 ''0'' ?w)))"
    by (simp add: e u)
  from h1 h2 e c1 c2 show ?thesis by simp
qed

subsection \<open>The Bybit adapter\<close>

text \<open>
  The operations of Bybit that test the envelope. Take a first request that succeeds with
  a JSON object as body, and arguments that pass the validation of \<open>fetch_klines\<close> and of
  \<open>fetch_funding_rate_history\<close>. When the \<open>retCode\<close> of the body is not equal to 0 (a
  missing \<open>retCode\<close> is not), both raise \<open>Exception\<close> with the vendor's \<open>retMsg\<close> after that
  one request, and this is not an error of the transport category. When it is equal to 0
  both return what the parsing of \<open>result.list\<close> gives. So a parsed result is returned only
  when \<open>retCode\<close> is equal to 0. \<open>fetch_open_interest\<close> raises in the same way.
\<close>

lemma bybit_vendor_error:
  assumes resp: "script w (length (sent w)) = Json response"
    and code: "py_get response ''retCode'' JNull = Inr code"
    and msg: "py_get response ''retMsg'' (JStr ''Unknown error'') = Inr msg"
    and res: "py_get response ''result'' (JObj []) = Inr result"
    and kl: "interval \<in> set bybit_valid_intervals" "1 \<le> limit" "limit \<le> 1000"
            "market = ''spot'' \<or> market = ''futures''"
    and fu: "1 \<le> flimit" "flimit \<le> 200" "fstart = None \<or> fend \<noteq> None"
  shows
    "(py_ne_int code 0 \<longrightarrow>
        bybit_fetch_klines ios so symbol interval market st en limit tz w
          = (Inl (Exception (''Bybit API error: '' @ py_format so msg)),
             w\<lparr>sent := sent w @ [Get (bybit_klines_url symbol interval market st en limit)]\<rparr>)
      \<and> bybit_fetch_funding_rate_history so symbol fstart fend flimit ''futures'' w
          = (Inl (Exception (''Bybit API error: '' @ py_format so msg)),
             w\<lparr>sent := sent w @ [Get (bybit_funding_url symbol fstart fend flimit)]\<rparr>)
      \<and> \<not> spec_transport_error (Exception (''Bybit API error: '' @ py_format so msg)))
   \<and> (\<not> py_ne_int code 0 \<longrightarrow>
        fst (bybit_fetch_klines ios so symbol interval market st en limit tz w)
          = (case py_get result ''list'' (JArr []) of
               Inl e \<Rightarrow> Inl e | Inr raw_data \<Rightarrow> bybit_parse_klines ios raw_data)
      \<and> fst (bybit_fetch_funding_rate_history so symbol fstart fend flimit ''futures'' w)
          = (case py_get result ''list'' (JArr []) of
               Inl e \<Rightarrow> Inl e | Inr raw_data \<Rightarrow> bybit_parse_funding_rates raw_data))
   \<and> ((\<exists>klines. fst (bybit_fetch_klines ios so symbol interval market st en limit tz w) = Inr klines)
        \<longrightarrow> \<not> py_ne_int code 0)
   \<and> ((\<exists>rates. fst (bybit_fetch_funding_rate_history so symbol fstart fend flimit ''futures'' w) = Inr rates)
        \<longrightarrow> \<not> py_ne_int code 0)"
  (is "?A \<and> ?B \<and> ?C \<and> ?D")
proof -
  let ?ku = "bybit_klines_url symbol interval market st en limit"
  let ?fu = "bybit_funding_url symbol fstart fend flimit"
  let ?err = "Inl (Exception (''Bybit API error: '' @ py_format so msg)) :: error + pydict list"
  have k: "bybit_fetch_klines ios so symbol interval market st en limit tz w
      = (case bybit_result_list so response of
           Inl e \<Rightarrow> (Inl e, w\<lparr>sent := sent w @ [Get ?ku]\<rparr>)
         | Inr raw_data \<Rightarrow> (bybit_parse_klines ios raw_data, w\<lparr>sent := sent w @ [Get ?ku]\<rparr>))"
    using kl by (auto simp: bybit_fetch_klines_def fetch_with_retry_first_ok [OF resp])
  have f: "bybit_fetch_funding_rate_history so symbol fstart fend flimit ''futures'' w
      = (case bybit_result_list so response of
           Inl e \<Rightarrow> (Inl e, w\<lparr>sent := sent w @ [Get ?fu]\<rparr>)
         | Inr raw_data \<Rightarrow> (bybit_parse_funding_rates raw_data, w\<lparr>sent := sent w @ [Get ?fu]\<rparr>))"
    using fu by (auto simp: bybit_fetch_funding_rate_history_def fetch_with_retry_first_ok [OF resp])
  have bad: "bybit_result_list so response = Inl (Exception (''Bybit API error: '' @ py_format so msg))"
    if "py_ne_int code 0"
    using that code msg by (simp add: bybit_result_list_def)
  have good: "bybit_result_list so response = py_get result ''list'' (JArr [])"
    if "\<not> py_ne_int code 0"
    using that code res by (simp add: bybit_result_list_def)
  have a: ?A
    using bad by (simp add: k f spec_transport_error_def)
  have b: ?B
    using good by (auto simp: k f split: sum.splits)
  have c: ?C
  proof
    assume "\<exists>klines. fst (bybit_fetch_klines ios so symbol interval market st en limit tz w) = Inr klines"
    then show "\<not> py_ne_int code 0"
      using bad by (auto simp: k)
  qed
  have d: ?D
  proof
    assume "\<exists>rates. fst (bybit_fetch_funding_rate_history so symbol fstart fend flimit ''futures'' w) = Inr rates"
    then show "\<not> py_ne_int code 0"
      using bad by (auto simp: f)
  qed
  from a b c d show ?thesis by blast
qed

lemma bybit_vendor_error_example:
  "script (fresh_world script_bybit_error) (length (sent (fresh_world script_bybit_error)))
     = Json example_bybit_error
   \<and> py_get example_bybit_error ''retCode'' JNull = Inr (JInt 10001)
   \<and> py_get example_bybit_error ''retMsg'' (JStr ''Unknown error'')
       = Inr (JStr ''params error: Symbol Invalid'')
   \<and> py_ne_int (JInt 10001) 0
   \<and> ''60'' \<in> set bybit_valid_intervals
   \<and> bybit_fetch_klines decimal_of_str str_placeholder ''BTCUSDT'' ''60'' ''spot'' None None 200 ''0''
        (fresh_world script_bybit_error)
       = (Inl (Exception ''Bybit API error: params error: Symbol Invalid''),
          (fresh_world script_bybit_error)
            \<lparr>sent := [Get ''https://api.bybit.com/v5/market/kline?symbol=BTCUSDT&interval=60&category=spot&limit=200'']\<rparr>)
   \<and> bybit_fetch_funding_rate_history str_placeholder ''BTCUSDT'' None None 200 ''futures''
        (fresh_world script_bybit_error)
       = (Inl (Exception ''Bybit API error: params error: Symbol Invalid''),
          (fresh_world script_bybit_error)
            \<lparr>sent := [Get ''https://api.bybit.com/v5/market/funding/history?category=linear&symbol=BTCUSDT&limit=200'']\<rparr>)
   \<and> script (fresh_world script_bybit_klines) (length (sent (fresh_world script_bybit_klines)))
       = Json example_bybit_klines
   \<and> py_get example_bybit_klines ''retCode'' JNull = Inr (JInt 0)
   \<and> \<not> py_ne_int (JInt 0) 0
   \<and> fst (bybit_fetch_klines decimal_of_str str_placeholder ''BTCUSDT'' ''60'' ''spot'' None None 200 ''0''
        (fresh_world script_bybit_klines))
       = bybit_parse_klines decimal_of_str
           (JArr [example_bybit_row ''1670608800000'' ''17055'',
                  example_bybit_row ''1670605200000'' ''17071'',
                  example_bybit_row ''1670601600000'' ''17086''])"
proof -
  let ?we = "fresh_world script_bybit_error"
  let ?wk = "fresh_world script_bybit_klines"
  let ?rows = "JArr [example_bybit_row ''1670608800000'' ''17055'',
                  example_bybit_row ''1670605200000'' ''17071'',
                  example_bybit_row ''1670601600000'' ''17086'']"
  let ?res = "JObj [(''symbol'', JStr ''BTCUSDT''), (''category'', JStr ''spot''), (''list'', ?rows)]"
  have e1: "script ?we (length (sent ?we)) = Json example_bybit_error"
    by (simp add: fresh_world_def script_bybit_error_def)
  have e2: "py_get example_bybit_error ''retCode'' JNull = Inr (JInt 10001)"
    by (simp add: py_get_def example_bybit_error_def)
  have e3: "py_get example_bybit_error ''retMsg'' (JStr ''Unknown error'')
       = Inr (JStr ''params error: Symbol Invalid'')"
    by (simp add: py_get_def example_bybit_error_def)
  have e4: "py_get example_bybit_error ''result'' (JObj []) = Inr (JObj [])"
    by (simp add: py_get_def example_bybit_error_def)
  have e5: "py_ne_int (JInt 10001) 0"
    by (simp add: py_ne_int_def)
  have v: "''60'' \<in> set bybit_valid_intervals"
    by (simp add: bybit_valid_intervals_def)
  have lim: "(1 :: int) \<le> 200" "(200 :: int) \<le> 1000" "(200 :: int) \<le> 200"
    "''spot'' = ''spot'' \<or> ''spot'' = ''futures''" "(None :: int option) = None \<or> (None :: int option) \<noteq> None"
    by simp_all
  have u1: "bybit_klines_url ''BTCUSDT'' ''60'' ''spot'' None None 200
      = ''https://api.bybit.com/v5/market/kline?symbol=BTCUSDT&interval=60&category=spot&limit=200''"
    by code_simp
  have u2: "bybit_funding_url ''BTCUSDT'' None None 200
      = ''https://api.bybit.com/v5/market/funding/history?category=linear&symbol=BTCUSDT&limit=200''"
    by code_simp
  have f: "py_format str_placeholder (JStr ''params error: Symbol Invalid'') = ''params error: Symbol Invalid''"
    by (simp add: py_format_def)
  have s0: "sent ?we = []"
    by (simp add: fresh_world_def)
  note T1 = bybit_vendor_error [OF e1 e2 e3 e4 v lim(1) lim(2) lim(4) lim(1) lim(3) lim(5),
      where ios = decimal_of_str and so = str_placeholder and symbol = "''BTCUSDT''"
        and st = None and en = None and tz = "''0''"]
  from T1 e5 have c1: "bybit_fetch_klines decimal_of_str str_placeholder ''BTCUSDT'' ''60'' ''spot'' None None 200 ''0'' ?we
       = (Inl (Exception ''Bybit API error: params error: Symbol Invalid''),
          ?we\<lparr>sent := [Get ''https://api.bybit.com/v5/market/kline?symbol=BTCUSDT&interval=60&category=spot&limit=200'']\<rparr>)"
    by (simp add: u1 f s0)
  from T1 e5 have c2: "bybit_fetch_funding_rate_history str_placeholder ''BTCUSDT'' None None 200 ''futures'' ?we
       = (Inl (Exception ''Bybit API error: params error: Symbol Invalid''),
          ?we\<lparr>sent := [Get ''https://api.bybit.com/v5/market/funding/history?category=linear&symbol=BTCUSDT&limit=200'']\<rparr>)"
    by (simp add: u2 f s0)
  have k1: "script ?wk (length (sent ?wk)) = Json example_bybit_klines"
    by (simp add: fresh_world_def script_bybit_klines_def)
  have k2: "py_get example_bybit_klines ''retCode'' JNull = Inr (JInt 0)"
    by (simp add: py_get_def example_bybit_klines_def)
  have k3: "py_get example_bybit_klines ''retMsg'' (JStr ''Unknown error'') = Inr (JStr ''OK'')"
    by (simp add: py_get_def example_bybit_klines_def)
  have k4: "py_get example_bybit_klines ''result'' (JObj []) = Inr ?res"
    by (simp add: py_get_def example_bybit_klines_def)
  have k5: "\<not> py_ne_int (JInt 0) 0"
    by (simp add: py_ne_int_def)
  have k6: "py_get ?res ''list'' (JArr []) = Inr ?rows"
    by (simp add: py_get_def)
  note T2 = bybit_vendor_error [OF k1 k2 k3 k4 v lim(1) lim(2) lim(4) lim(1) lim(3) lim(5),
      where ios = decimal_of_str and so = str_placeholder and symbol = "''BTCUSDT''"
        and st = None and en = None and tz = "''0''"]
  from T2 k5 have "fst (bybit_fetch_klines decimal_of_str str_placeholder ''BTCUSDT'' ''60'' ''spot'' None None 200 ''0'' ?wk)
       = (case py_get ?res ''list'' (JArr []) of
               Inl e \<Rightarrow> Inl e | Inr raw_data \<Rightarrow> bybit_parse_klines decimal_of_str raw_data)"
    by blast
  then have c3: "fst (bybit_fetch_klines decimal_of_str str_placeholder ''BTCUSDT'' ''60'' ''spot'' None None 200 ''0'' ?wk)
       = bybit_parse_klines decimal_of_str ?rows"
    by (simp add: k6)
  from e1 e2 e3 e5 v c1 c2 k1 k2 k5 c3 show ?thesis by blast
qed

lemma bybit_open_interest_vendor_error:
  assumes resp: "script w (length (sent w)) = Json response"
    and code: "py_get response ''retCode'' JNull = Inr code"
    and msg: "py_get response ''retMsg'' (JStr ''Unknown error'') = Inr msg"
    and valid: "interval \<in> set bybit_open_interest_intervals" "1 \<le> limit" "limit \<le> 200"
    and bad: "py_ne_int code 0"
  shows "bybit_fetch_open_interest so symbol interval st en limit ''futures'' w
           = (Inl (Exception (''Bybit API error: '' @ py_format so msg)),
              w\<lparr>sent := sent w @ [Get (bybit_open_interest_url symbol interval st en limit)]\<rparr>)"
  using valid code msg bad
  by (auto simp: bybit_fetch_open_interest_def fetch_with_retry_first_ok [OF resp])

text \<open>
  C7 fails on the pair listing. The first request of \<open>fetch_all_pairs\<close> succeeds with the
  body \<open>{"retCode": 10001, "retMsg": "params error: Symbol Invalid", "result": {}}\<close>, whose
  \<open>retCode\<close> is not equal to 0. \<open>fetch_symbols_from_exchange\<close> does not test \<open>retCode\<close>: for
  spot and for futures the call returns an empty pair set as a success, and with
  \<open>use_cache\<close> stores it in the cache, after the one request. On the same body
  \<open>fetch_klines\<close> and \<open>fetch_open_interest\<close> raise \<open>Exception\<close> with the vendor's text.
\<close>

theorem bybit_pair_listing_ignores_ret_code:
  "py_get example_bybit_error ''retCode'' JNull = Inr (JInt 10001)
   \<and> py_ne_int (JInt 10001) 0
   \<and> fst (fetch_all_pairs bybit ''spot'' True 1000 1001 (new_instance BybitExchange None)
             (fresh_world script_bybit_error))
       = Inr \<lparr>active = [], inactive = []\<rparr>
   \<and> cache (fst (snd (fetch_all_pairs bybit ''spot'' True 1000 1001 (new_instance BybitExchange None)
             (fresh_world script_bybit_error))))
       = [(''spot'', 1001, \<lparr>active = [], inactive = []\<rparr>)]
   \<and> sent (snd (snd (fetch_all_pairs bybit ''spot'' True 1000 1001 (new_instance BybitExchange None)
             (fresh_world script_bybit_error))))
       = [Get bybit_spot_url]
   \<and> fst (fetch_all_pairs bybit ''futures'' True 1000 1001 (new_instance BybitExchange None)
             (fresh_world script_bybit_error))
       = Inr \<lparr>active = [], inactive = []\<rparr>
   \<and> fst (bybit_fetch_klines decimal_of_str str_placeholder ''BTCUSDT'' ''60'' ''spot'' None None 200 ''0''
             (fresh_world script_bybit_error))
       = Inl (Exception ''Bybit API error: params error: Symbol Invalid'')
   \<and> fst (bybit_fetch_open_interest str_placeholder ''BTCUSDT'' ''1h'' None None 50 ''futures''
             (fresh_world script_bybit_error))
       = Inl (Exception ''Bybit API error: params error: Symbol Invalid'')"
  by code_simp

text \<open>
  C4. Against a fixed response whose rows are newest first, a call of Bybit's
  \<open>fetch_klines\<close> that returns klines returns one kline per row with the open times in
  ascending order, the reverse of the order of the rows, and a second call with the same
  arguments in the world the first call leaves behind returns the same list.
\<close>

theorem bybit_klines_chronological:
  assumes fixed: "\<forall>k. script w k = Json response"
    and ok: "fst (bybit_fetch_klines ios so symbol interval market st en limit tz w) = Inr out"
    and raw: "bybit_result_list so response = Inr raw_data"
    and rows: "py_iter raw_data = Inr rows"
    and newest_first: "sorted (rev (map (spec_start_time ios) rows))"
  shows "map open_time_of out = rev (map (spec_start_time ios) rows)
       \<and> sorted (map open_time_of out)
       \<and> fst (bybit_fetch_klines ios so symbol interval market st en limit tz
               (snd (bybit_fetch_klines ios so symbol interval market st en limit tz w))) = Inr out"
proof -
  let ?url = "bybit_klines_url symbol interval market st en limit"
  let ?w1 = "w\<lparr>sent := sent w @ [Get ?url]\<rparr>"
  let ?w2 = "?w1\<lparr>sent := sent ?w1 @ [Get ?url]\<rparr>"
  have valid: "\<not> (interval \<notin> set bybit_valid_intervals)" "\<not> (limit > 1000 \<or> limit < 1)"
    "\<not> (market \<noteq> ''spot'' \<and> market \<noteq> ''futures'')"
    using ok by (auto simp: bybit_fetch_klines_def split: if_splits)
  have f0: "fetch_with_retry ?url w = (Inr response, ?w1)"
    using fixed by (intro fetch_with_retry_first_ok) simp
  have f1: "fetch_with_retry ?url ?w1 = (Inr response, ?w2)"
    using fixed by (intro fetch_with_retry_first_ok) simp
  have c0: "bybit_fetch_klines ios so symbol interval market st en limit tz w
              = (bybit_parse_klines ios raw_data, ?w1)"
    using valid by (auto simp: bybit_fetch_klines_def f0 raw)
  have c1: "bybit_fetch_klines ios so symbol interval market st en limit tz ?w1
              = (bybit_parse_klines ios raw_data, ?w2)"
    using valid by (auto simp: bybit_fetch_klines_def f1 raw)
  from ok c0 have p: "bybit_parse_klines ios raw_data = Inr out"
    by simp
  then obtain klines where ks: "mapM (bybit_kline_row ios) rows = Inr klines" and out: "out = rev klines"
    using rows by (auto simp: bybit_parse_klines_def split: sum.splits)
  have t: "map open_time_of out = rev (map (spec_start_time ios) rows)"
    using mapM_bybit_open_times [OF ks] out by (simp add: rev_map [symmetric])
  have s: "sorted (map open_time_of out)"
    using t newest_first by simp
  have again: "fst (bybit_fetch_klines ios so symbol interval market st en limit tz
               (snd (bybit_fetch_klines ios so symbol interval market st en limit tz w))) = Inr out"
    by (simp add: c0 c1 p)
  from t s again show ?thesis by blast
qed

theorem bybit_klines_chronological_witness:
  "(\<forall>k. script (fresh_world script_bybit_klines) k = Json example_bybit_klines)
   \<and> fst (bybit_fetch_klines decimal_of_str str_placeholder ''BTCUSDT'' ''60'' ''spot'' None None 200 ''0''
             (fresh_world script_bybit_klines)) = Inr example_bybit_output
   \<and> map (spec_start_time decimal_of_str) example_bybit_rows
       = [1670608800000, 1670605200000, 1670601600000]
   \<and> sorted (rev (map (spec_start_time decimal_of_str) example_bybit_rows))
   \<and> map open_time_of example_bybit_output = [1670601600000, 1670605200000, 1670608800000]
   \<and> sorted (map open_time_of example_bybit_output)
   \<and> fst (bybit_fetch_klines decimal_of_str str_placeholder ''BTCUSDT'' ''60'' ''spot'' None None 200 ''0''
        (snd (bybit_fetch_klines decimal_of_str str_placeholder ''BTCUSDT'' ''60'' ''spot'' None None 200 ''0''
             (fresh_world script_bybit_klines)))) = Inr example_bybit_output"
proof -
  let ?w = "fresh_world script_bybit_klines"
  have h1: "\<forall>k. script ?w k = Json example_bybit_klines"
    by (simp add: fresh_world_def script_bybit_klines_def)
  have h2: "fst (bybit_fetch_klines decimal_of_str str_placeholder ''BTCUSDT'' ''60'' ''spot'' None None 200 ''0'' ?w)
              = Inr example_bybit_output"
    by code_simp
  have h3: "bybit_result_list str_placeholder example_bybit_klines = Inr (JArr example_bybit_rows)"
    by code_simp
  have h4: "py_iter (JArr example_bybit_rows) = Inr example_bybit_rows"
    by (simp add: py_iter_def)
  have st: "map (spec_start_time decimal_of_str) example_bybit_rows
       = [1670608800000, 1670605200000, 1670601600000]"
    by code_simp
  have h5: "sorted (rev (map (spec_start_time decimal_of_str) example_bybit_rows))"
    by (simp add: st)
  note T = bybit_klines_chronological [OF h1 h2 h3 h4 h5]
  from T st have c1: "map open_time_of example_bybit_output = [1670601600000, 1670605200000, 1670608800000]"
    by simp
  from T h1 h2 st h5 c1 show ?thesis by blast
qed

subsection \<open>The market data of Hyperliquid\<close>

text \<open>The rounding on familiar values: 0.1, 1/3 and 2 to the power 53, plus 1.\<close>

lemma fl_examples:
  "fl (1 / 10) = 3602879701896397 / 2 ^ 55"
  "fl (1 / 3) = 6004799503160661 / 2 ^ 54"
  "fl (2 ^ 53 + 1) = 2 ^ 53"
  "fl (2 ^ 53 + 3) = 2 ^ 53 + 4"
  "fl (101540 - 102983) = - 1443"
  by code_simp+

text \<open>
  C6. The \<open>price_change_24h\<close> of a market never fails with a division by zero. When the
  two prices convert to floats, it is \<open>round(x, 2)\<close> of the float
  \<open>(mark_px - prev_day_px) / prev_day_px * 100\<close> if the previous-day price is positive and
  the integer 0 if it is zero (or negative); for a mark price of 101540.0 and a
  previous-day price of 102983.0 it is the float -1.40. When the context has no
  \<open>prevDayPx\<close> it is 0 as well. This is the value stored in the market's dict.
\<close>

theorem hyperliquid_price_change_24h:
  "price_change_24h fos ctx \<noteq> Inl ZeroDivisionError
   \<and> (py_get ctx ''markPx'' (JInt 0) = Inr m \<and> py_float fos m = Inr mark_px
        \<and> py_get ctx ''prevDayPx'' (JInt 0) = Inr p \<and> py_float fos p = Inr prev_day_px \<longrightarrow>
        (prev_day_px > 0 \<longrightarrow>
           price_change_24h fos ctx
             = Inr (JFloat (float_round2 (fl (fl (fl (mark_px - prev_day_px) / prev_day_px) * 100)))))
      \<and> (prev_day_px \<le> 0 \<longrightarrow> price_change_24h fos ctx = Inr (JInt 0))
      \<and> (mark_px = 101540 \<and> prev_day_px = 102983 \<longrightarrow>
           price_change_24h fos ctx = Inr (JFloat (fl (- 1.40)))))
   \<and> (ctx = JObj kv \<and> map_of kv ''prevDayPx'' = None
        \<and> py_get ctx ''markPx'' (JInt 0) = Inr m \<and> py_float fos m = Inr mark_px \<longrightarrow>
        price_change_24h fos ctx = Inr (JInt 0))
   \<and> (market_data fos asset_info asset_name ctx = Inr md \<longrightarrow>
        (\<exists>c. price_change_24h fos ctx = Inr c \<and> map_of md ''price_change_24h'' = Some c))"
  (is "?A \<and> ?B \<and> ?C \<and> ?D")
proof -
  have a: ?A
    using py_get_no_zero_division py_float_no_zero_division
    by (auto simp: price_change_24h_def float_div_def split: sum.splits)
  have pos: "price_change_24h fos ctx
             = Inr (JFloat (float_round2 (fl (fl (fl (mark_px - prev_day_px) / prev_day_px) * 100))))"
    if "py_get ctx ''markPx'' (JInt 0) = Inr m" "py_float fos m = Inr mark_px"
       "py_get ctx ''prevDayPx'' (JInt 0) = Inr p" "py_float fos p = Inr prev_day_px"
       "prev_day_px > 0"
    for mark_px prev_day_px
    using that by (simp add: price_change_24h_def float_div_def float_sub_def float_mul_def)
  have zero: "price_change_24h fos ctx = Inr (JInt 0)"
    if "py_get ctx ''markPx'' (JInt 0) = Inr m" "py_float fos m = Inr mark_px"
       "py_get ctx ''prevDayPx'' (JInt 0) = Inr p" "py_float fos p = Inr prev_day_px"
       "prev_day_px \<le> 0"
    for p prev_day_px
    using that by (simp add: price_change_24h_def)
  have ex: "float_round2 (fl (fl (fl (101540 - 102983) / 102983) * 100)) = fl (- 1.40)"
    by code_simp
  have b: ?B
  proof (intro impI conjI)
    assume h: "py_get ctx ''markPx'' (JInt 0) = Inr m \<and> py_float fos m = Inr mark_px
        \<and> py_get ctx ''prevDayPx'' (JInt 0) = Inr p \<and> py_float fos p = Inr prev_day_px"
    show "price_change_24h fos ctx
             = Inr (JFloat (float_round2 (fl (fl (fl (mark_px - prev_day_px) / prev_day_px) * 100))))"
      if "prev_day_px > 0"
      using h that pos by blast
    show "price_change_24h fos ctx = Inr (JInt 0)" if "prev_day_px \<le> 0"
      using h that zero by blast
    show "price_change_24h fos ctx = Inr (JFloat (fl (- 1.40)))"
      if e: "mark_px = 101540 \<and> prev_day_px = 102983"
    proof -
      from e have "prev_day_px > 0" by simp
      with h pos have "price_change_24h fos ctx
             = Inr (JFloat (float_round2 (fl (fl (fl (mark_px - prev_day_px) / prev_day_px) * 100))))"
        by blast
      with e ex show ?thesis by simp
    qed
  qed
  have c: ?C
  proof
    assume h: "ctx = JObj kv \<and> map_of kv ''prevDayPx'' = None
        \<and> py_get ctx ''markPx'' (JInt 0) = Inr m \<and> py_float fos m = Inr mark_px"
    then have g: "py_get ctx ''prevDayPx'' (JInt 0) = Inr (JInt 0)"
      by (auto simp: py_get_def)
    have f: "py_float fos (JInt 0) = Inr 0"
      by (simp add: py_float_def fl_def)
    from h have m: "py_get ctx ''markPx'' (JInt 0) = Inr m" "py_float fos m = Inr mark_px"
      by blast+
    show "price_change_24h fos ctx = Inr (JInt 0)"
      by (rule zero [OF m g f]) simp
  qed
  have d: ?D
    by (auto simp: market_data_def split: sum.splits)
  from a b c d show ?thesis by blast
qed

theorem hyperliquid_price_change_24h_witness:
  "py_get example_ctx ''markPx'' (JInt 0) = Inr (JStr ''101540.0'')
   \<and> py_float example_float_of_str (JStr ''101540.0'') = Inr 101540
   \<and> py_get example_ctx ''prevDayPx'' (JInt 0) = Inr (JStr ''102983.0'')
   \<and> py_float example_float_of_str (JStr ''102983.0'') = Inr 102983
   \<and> price_change_24h example_float_of_str example_ctx = Inr (JFloat (fl (- 1.40)))
   \<and> fl (- 1.40) = - 6305039478318694 / 2 ^ 52
   \<and> py_get example_ctx_zero ''prevDayPx'' (JInt 0) = Inr (JStr ''0.0'')
   \<and> py_float example_float_of_str (JStr ''0.0'') = Inr 0
   \<and> price_change_24h example_float_of_str example_ctx_zero = Inr (JInt 0)
   \<and> example_ctx_absent = JObj [(''markPx'', JStr ''101540.0'')]
   \<and> map_of [(''markPx'', JStr ''101540.0'')] ''prevDayPx'' = None
   \<and> price_change_24h example_float_of_str example_ctx_absent = Inr (JInt 0)
   \<and> fst (hyperliquid_fetch_market_data example_float_of_str (Some ''BTC'')
             (fresh_world script_hyperliquid)) = Inr [example_btc_market]
   \<and> market_data example_float_of_str example_asset_info (JStr ''BTC'') example_ctx
        = Inr example_btc_market
   \<and> map_of example_btc_market ''price_change_24h'' = Some (JFloat (fl (- 1.40)))"
proof -
  let ?f = example_float_of_str
  have m: "py_get example_ctx ''markPx'' (JInt 0) = Inr (JStr ''101540.0'')"
    and mz: "py_get example_ctx_zero ''markPx'' (JInt 0) = Inr (JStr ''101540.0'')"
    and ma: "py_get example_ctx_absent ''markPx'' (JInt 0) = Inr (JStr ''101540.0'')"
    and p: "py_get example_ctx ''prevDayPx'' (JInt 0) = Inr (JStr ''102983.0'')"
    and pz: "py_get example_ctx_zero ''prevDayPx'' (JInt 0) = Inr (JStr ''0.0'')"
    by (simp_all add: py_get_def example_ctx_def example_ctx_zero_def example_ctx_absent_def)
  have fm: "py_float ?f (JStr ''101540.0'') = Inr 101540"
    and fp: "py_float ?f (JStr ''102983.0'') = Inr 102983"
    and fz: "py_float ?f (JStr ''0.0'') = Inr 0"
    by (simp_all add: py_float_def example_float_of_str_def)
  have ab: "example_ctx_absent = JObj [(''markPx'', JStr ''101540.0'')]"
    by (simp add: example_ctx_absent_def)
  have ab': "map_of [(''markPx'', JStr ''101540.0'')] ''prevDayPx'' = None"
    by simp
  have v: "fl (- 1.40) = - 6305039478318694 / 2 ^ 52"
    by code_simp
  have md: "market_data ?f example_asset_info (JStr ''BTC'') example_ctx = Inr example_btc_market"
    by code_simp
  have all: "fst (hyperliquid_fetch_market_data ?f (Some ''BTC'') (fresh_world script_hyperliquid))
               = Inr [example_btc_market]"
    by code_simp
  note T1 = hyperliquid_price_change_24h [where fos = ?f and ctx = example_ctx
      and m = "JStr ''101540.0''" and p = "JStr ''102983.0''" and mark_px = 101540
      and prev_day_px = 102983 and asset_info = example_asset_info and asset_name = "JStr ''BTC''"
      and md = example_btc_market]
  from T1 m fm p fp have c1: "price_change_24h ?f example_ctx = Inr (JFloat (fl (- 1.40)))"
    by blast
  from T1 md obtain c where "price_change_24h ?f example_ctx = Inr c"
      and "map_of example_btc_market ''price_change_24h'' = Some c"
    by blast
  with c1 have c2: "map_of example_btc_market ''price_change_24h'' = Some (JFloat (fl (- 1.40)))"
    by simp
  note T2 = hyperliquid_price_change_24h [where fos = ?f and ctx = example_ctx_zero
      and m = "JStr ''101540.0''" and p = "JStr ''0.0''" and mark_px = 101540 and prev_day_px = 0]
  from T2 mz fm pz fz have c3: "price_change_24h ?f example_ctx_zero = Inr (JInt 0)"
    by simp
  note T3 = hyperliquid_price_change_24h [where fos = ?f and ctx = example_ctx_absent
      and kv = "[(''markPx'', JStr ''101540.0'')]" and m = "JStr ''101540.0''" and mark_px = 101540]
  from T3 ab ab' ma fm have c4: "price_change_24h ?f example_ctx_absent = Inr (JInt 0)"
    by blast
  from m fm p fp c1 v pz fz c3 ab ab' c4 all md c2 show ?thesis by blast
qed

subsection \<open>Exchange registry\<close>

text \<open>
  C8. \<open>register\<close> stores a class under the lower-cased name, and registering again under a
  name with the same lower-casing replaces the class without adding a second entry. \<open>create\<close>
  looks the name up lower-cased, so two names that differ only in case produce the same
  instance; for a name that is not registered it raises \<open>ValueError\<close>, and the message contains
  the \<open>repr\<close> of every registered name. On the registry built at import time,
  \<open>create("BINANCE")\<close> and \<open>create("binance")\<close> both give a \<open>BinanceExchange\<close>, and
  \<open>create("unknown-xyz")\<close> raises with the message listing binance, bybit and hyperliquid.
\<close>

theorem registry_register_create: 
  "map_of (register name c reg) (lower name) = Some c
   \<and> (lower name' = lower name \<longrightarrow>
        create name db (register name c (register name' c' reg)) = Inr (new_instance c db)
      \<and> list_exchanges (register name c (register name' c' reg)) = list_exchanges (register name' c' reg))
   \<and> (lower name' = lower name \<longrightarrow> (\<forall>i. create name' db reg = Inr i \<longleftrightarrow> create name db reg = Inr i))
   \<and> (map_of reg (lower name) = None \<longrightarrow>
        create name db reg = Inl (ValueError (''Exchange '' @ quoted name
             @ '' not found. Available exchanges: '' @ py_repr_list (list_exchanges reg)))
      \<and> (\<forall>n \<in> set (list_exchanges reg). sublist (py_repr_str n)
           (''Exchange '' @ quoted name
             @ '' not found. Available exchanges: '' @ py_repr_list (list_exchanges reg))))
   \<and> create ''BINANCE'' db module_registry = Inr (new_instance BinanceExchange db)
   \<and> create ''binance'' db module_registry = Inr (new_instance BinanceExchange db)
   \<and> create ''unknown-xyz'' db module_registry =
       Inl (ValueError (''Exchange '' @ quoted ''unknown-xyz''
         @ '' not found. Available exchanges: ['' @ quoted ''binance''
         @ '', '' @ quoted ''bybit''
         @ '', '' @ quoted ''hyperliquid'' @ '']''))"
  (is "?A \<and> ?B \<and> ?C \<and> ?D \<and> ?E \<and> ?F \<and> ?G")
proof -
  have a: ?A
    by (simp add: register_def map_of_update_same)
  have b: ?B
    by (simp add: register_def create_def list_exchanges_def map_of_update_same update_keys)
  have c: ?C
    by (simp add: create_def split: option.splits)
  have d: ?D
  proof (intro impI conjI ballI)
    assume "map_of reg (lower name) = None"
    then show "create name db reg = Inl (ValueError (''Exchange '' @ quoted name
             @ '' not found. Available exchanges: '' @ py_repr_list (list_exchanges reg)))"
      by (simp add: create_def)
  next
    fix n assume "n \<in> set (list_exchanges reg)"
    then show "sublist (py_repr_str n) (''Exchange '' @ quoted name
             @ '' not found. Available exchanges: '' @ py_repr_list (list_exchanges reg))"
      using sublist_py_repr_list [of n "list_exchanges reg"
          "''Exchange '' @ quoted name @ '' not found. Available exchanges: ''"]
      by simp
  qed
  have "map_of module_registry (lower ''BINANCE'') = Some BinanceExchange"
    by code_simp
  then have e: ?E
    by (simp add: create_def)
  have "map_of module_registry (lower ''binance'') = Some BinanceExchange"
    by code_simp
  then have f: ?F
    by (simp add: create_def)
  have "map_of module_registry (lower ''unknown-xyz'') = None"
    by code_simp
  moreover have "py_repr_list (list_exchanges module_registry)
       = ''['' @ quoted ''binance''
         @ '', '' @ quoted ''bybit''
         @ '', '' @ quoted ''hyperliquid'' @ '']''"
    by code_simp
  ultimately have g: ?G
    by (simp add: create_def)
  from a b c d e f g show ?thesis by blast
qed

theorem registry_register_create_witness:
  "lower ''ByBit'' = lower ''bybit''
   \<and> create ''ByBit'' None (register ''ByBit'' HyperliquidExchange (register ''bybit'' BybitExchange []))
       = Inr (new_instance HyperliquidExchange None)
   \<and> list_exchanges (register ''ByBit'' HyperliquidExchange (register ''bybit'' BybitExchange [])) = [''bybit'']
   \<and> (create ''bybit'' None module_registry = Inr (new_instance BybitExchange None)
        \<longleftrightarrow> create ''ByBit'' None module_registry = Inr (new_instance BybitExchange None))
   \<and> map_of module_registry (lower ''okx'') = None
   \<and> ''bybit'' \<in> set (list_exchanges module_registry)
   \<and> sublist (py_repr_str ''bybit'')
        (''Exchange '' @ quoted ''okx''
           @ '' not found. Available exchanges: '' @ py_repr_list (list_exchanges module_registry))"
proof -
  have h1: "lower ''ByBit'' = lower ''bybit''"
    by code_simp
  have h2: "map_of module_registry (lower ''okx'') = None"
    by code_simp
  have h3: "''bybit'' \<in> set (list_exchanges module_registry)"
    by code_simp
  have h4: "list_exchanges (register ''bybit'' BybitExchange []) = [''bybit'']"
    by code_simp
  note t1 = registry_register_create [of "''ByBit''" HyperliquidExchange "[]" "''bybit''" None BybitExchange]
  note t2 = registry_register_create [of "''ByBit''" BybitExchange module_registry "''bybit''" None BybitExchange]
  note t3 = registry_register_create [of "''okx''" BybitExchange module_registry "''okx''" None BybitExchange]
  from t1 h1 h4 have c1: "create ''ByBit'' None (register ''ByBit'' HyperliquidExchange (register ''bybit'' BybitExchange []))
       = Inr (new_instance HyperliquidExchange None)
     \<and> list_exchanges (register ''ByBit'' HyperliquidExchange (register ''bybit'' BybitExchange [])) = [''bybit'']"
    by simp
  from t2 h1 have c2: "create ''bybit'' None module_registry = Inr (new_instance BybitExchange None)
        \<longleftrightarrow> create ''ByBit'' None module_registry = Inr (new_instance BybitExchange None)"
    by simp
  from t3 h2 h3 have c3: "sublist (py_repr_str ''bybit'')
        (''Exchange '' @ quoted ''okx''
           @ '' not found. Available exchanges: '' @ py_repr_list (list_exchanges module_registry))"
    by blast
  from h1 h2 h3 c1 c2 c3 show ?thesis by blast
qed

end
